theory Spec2Isabelle
  imports Main "HOL-Library.Word" "HOL-Library.AList"
begin

section \<open>JavaScript values\<close>

text \<open>
  A JavaScript string is a sequence of UTF-16 code units; \<open>length\<close>, \<open>slice\<close> and the
  regular expressions of the handlers all work on code units. \<open>js\<close> embeds an ASCII
  literal.
\<close>

type_synonym jschar = "16 word"
type_synonym jsstring = "jschar list"

definition js :: "string \<Rightarrow> jsstring" where
  "js s = map of_char s"

text \<open>
  The values the handlers see: what \<open>JSON.parse\<close> returns (null, booleans, numbers,
  strings, arrays, objects), \<open>undefined\<close> for a missing property, and the \<open>Date\<close> and
  \<open>ObjectId\<close> values of stored documents. An object is the list of its own properties,
  each key bound once. No handler inspects a number beyond its being zero, so numbers
  are kept as integers.
\<close>

datatype jsval =
    JUndefined
  | JNull
  | JBool bool
  | JNum int
  | JStr jsstring
  | JArr "jsval list"
  | JObj "(jsstring \<times> jsval) list"
  | JDate int
  | JOid jsstring

datatype js_error = TypeError | SyntaxError | BSONError | MongoError

text \<open>
  Property read \<open>v.k\<close> and destructuring \<open>{k} = v\<close>, for the property names the
  handlers read (\<open>department\<close>, \<open>reporter\<close>, \<open>email\<close>, \<open>id\<close>, ...), none of which
  exists on a prototype: reading from \<open>null\<close> or \<open>undefined\<close> throws a TypeError, a
  primitive or an array has no such property.
\<close>

fun get_prop :: "jsval \<Rightarrow> jsstring \<Rightarrow> js_error + jsval" where
  "get_prop JUndefined k = Inl TypeError"
| "get_prop JNull k = Inl TypeError"
| "get_prop (JObj kvs) k = Inr (case map_of kvs k of None \<Rightarrow> JUndefined | Some v \<Rightarrow> v)"
| "get_prop v k = Inr JUndefined"

text \<open>The same read where the source has already found \<open>v\<close> truthy.\<close>

fun own_prop :: "jsval \<Rightarrow> jsstring \<Rightarrow> jsval" where
  "own_prop (JObj kvs) k = (case map_of kvs k of None \<Rightarrow> JUndefined | Some v \<Rightarrow> v)"
| "own_prop v k = JUndefined"

text \<open>Truthiness, as \<open>!v\<close>, \<open>v && ...\<close> and \<open>v || ...\<close> test it.\<close>

fun truthy :: "jsval \<Rightarrow> bool" where
  "truthy JUndefined = False"
| "truthy JNull = False"
| "truthy (JBool b) = b"
| "truthy (JNum n) = (n \<noteq> 0)"
| "truthy (JStr s) = (s \<noteq> [])"
| "truthy v = True"

text \<open>\<open>typeof v === 'object'\<close>: objects, arrays, dates, ids, and \<open>null\<close>.\<close>

fun typeof_object :: "jsval \<Rightarrow> bool" where
  "typeof_object JNull = True"
| "typeof_object (JArr xs) = True"
| "typeof_object (JObj kvs) = True"
| "typeof_object (JDate t) = True"
| "typeof_object (JOid i) = True"
| "typeof_object v = False"

section \<open>submitComplaint.js: sanitizeString\<close>

text \<open>
  The white space class \<open>\s\<close> of JavaScript regular expressions, which
  \<open>validator.trim\<close> (no character set given) strips from both ends.
\<close>

definition is_space :: "jschar \<Rightarrow> bool" where
  "is_space c \<longleftrightarrow>
     c \<in> {0x09, 0x0A, 0x0B, 0x0C, 0x0D, 0x20, 0xA0, 0x1680, 0x2028, 0x2029, 0x202F,
            0x205F, 0x3000, 0xFEFF} \<or> (0x2000 \<le> c \<and> c \<le> 0x200A)"

definition ltrim :: "jsstring \<Rightarrow> jsstring" where
  "ltrim s = dropWhile is_space s"

definition rtrim :: "jsstring \<Rightarrow> jsstring" where
  "rtrim s = rev (dropWhile is_space (rev s))"

definition validator_trim :: "jsstring \<Rightarrow> jsstring" where
  "validator_trim s = rtrim (ltrim s)"

text \<open>
  \<^verbatim>\<open>
  function sanitizeString(input, maxLen = 2000) {
    if (typeof input !== 'string') return '';
    let s = validator.trim(input);
    s = s.replace(/\0/g, '');
    if (s.length > maxLen) s = s.slice(0, maxLen);
    return s;
  }\<close>
\<close>

fun sanitizeString :: "jsval \<Rightarrow> nat \<Rightarrow> jsstring" where
  "sanitizeString (JStr input) maxLen =
     (let s = validator_trim input;
          s = filter (\<lambda>c. c \<noteq> 0) s
      in if length s > maxLen then take maxLen s else s)"
| "sanitizeString v maxLen = []"

text \<open>A string is trimmed when neither end is white space.\<close>

definition trimmed :: "jsstring \<Rightarrow> bool" where
  "trimmed s \<longleftrightarrow> (case s of [] \<Rightarrow> True | c # cs \<Rightarrow> \<not> is_space c \<and> \<not> is_space (last s))"

section \<open>submitComplaint.js: createComplaintId\<close>

text \<open>\<open>Number.prototype.toString(36)\<close> on an integer: digits \<open>0-9a-z\<close>, a minus sign first
  for a negative number.\<close>

definition digit36 :: "nat \<Rightarrow> jschar" where
  "digit36 d = (if d < 10 then 0x30 + of_nat d else 0x61 + of_nat (d - 10))"

function digits36 :: "nat \<Rightarrow> jsstring" where
  "digits36 n = (if n < 36 then [digit36 n] else digits36 (n div 36) @ [digit36 (n mod 36)])"
  by pat_completeness auto
termination
  by (relation "measure id") auto

definition toString36 :: "int \<Rightarrow> jsstring" where
  "toString36 i = (if i < 0 then 0x2D # digits36 (nat (- i)) else digits36 (nat i))"

text \<open>\<open>toUpperCase\<close> on ASCII text, which a segment of a UUID is.\<close>

definition toUpperCase :: "jsstring \<Rightarrow> jsstring" where
  "toUpperCase s = map (\<lambda>c. if 0x61 \<le> c \<and> c \<le> 0x7A then c - 0x20 else c) s"

text \<open>\<open>s.split('-')[0]\<close>: the text before the first hyphen.\<close>

definition split_dash_first :: "jsstring \<Rightarrow> jsstring" where
  "split_dash_first s = takeWhile (\<lambda>c. c \<noteq> 0x2D) s"

text \<open>
  \<^verbatim>\<open>
  function createComplaintId() {
    const ts = Date.now().toString(36);
    const rnd = uuidv4().split('-')[0]; // 8 chars-ish
    return `COMP-${ts}-${rnd.toUpperCase()}`;
  }\<close>
  The clock reading and the UUID are the function's two inputs from outside.
\<close>

definition createComplaintId :: "int \<Rightarrow> jsstring \<Rightarrow> jsstring" where
  "createComplaintId now uuid =
     (let ts = toString36 now;
          rnd = split_dash_first uuid
      in js ''COMP-'' @ ts @ js ''-'' @ toUpperCase rnd)"

text \<open>What \<open>uuidv4()\<close> returns: 36 characters, lower-case hexadecimal digits in groups of
  8, 4, 4, 4 and 12 separated by hyphens.\<close>

definition is_lower_hex :: "jschar \<Rightarrow> bool" where
  "is_lower_hex c \<longleftrightarrow> (0x30 \<le> c \<and> c \<le> 0x39) \<or> (0x61 \<le> c \<and> c \<le> 0x66)"

definition is_uuid :: "jsstring \<Rightarrow> bool" where
  "is_uuid u \<longleftrightarrow> length u = 36 \<and>
     list_all is_lower_hex (take 8 u) \<and> u ! 8 = 0x2D \<and>
     list_all is_lower_hex (take 4 (drop 9 u)) \<and> u ! 13 = 0x2D \<and>
     list_all is_lower_hex (take 4 (drop 14 u)) \<and> u ! 18 = 0x2D \<and>
     list_all is_lower_hex (take 4 (drop 19 u)) \<and> u ! 23 = 0x2D \<and>
     list_all is_lower_hex (drop 24 u)"

text \<open>
  What a base-36 numeral denotes: its digits \<open>0-9\<close> count 0 to 9 and \<open>a-z\<close> count 10
  to 35, the most significant first.
\<close>

definition digit36_value :: "jschar \<Rightarrow> nat" where
  "digit36_value c = (if c \<le> 0x39 then unat c - 48 else unat c - 87)"

definition base36_value :: "jsstring \<Rightarrow> nat" where
  "base36_value s = foldl (\<lambda>acc c. acc * 36 + digit36_value c) 0 s"

text \<open>The pattern \<open>COMP-[0-9a-z]+-[0-9A-Z]{8}\<close>, matched against the whole string.\<close>

definition is_lower_alnum :: "jschar \<Rightarrow> bool" where
  "is_lower_alnum c \<longleftrightarrow> (0x30 \<le> c \<and> c \<le> 0x39) \<or> (0x61 \<le> c \<and> c \<le> 0x7A)"

definition is_upper_alnum :: "jschar \<Rightarrow> bool" where
  "is_upper_alnum c \<longleftrightarrow> (0x30 \<le> c \<and> c \<le> 0x39) \<or> (0x41 \<le> c \<and> c \<le> 0x5A)"

definition matches_id_pattern :: "jsstring \<Rightarrow> bool" where
  "matches_id_pattern s \<longleftrightarrow>
     take 5 s = js ''COMP-'' \<and>
     (let r = drop 5 s;
          ts = takeWhile is_lower_alnum r
      in ts \<noteq> [] \<and>
         (case dropWhile is_lower_alnum r of
            [] \<Rightarrow> False
          | c # rnd \<Rightarrow> c = 0x2D \<and> length rnd = 8 \<and> list_all is_upper_alnum rnd))"

section \<open>submitComplaint.js: isRateLimited\<close>

record rate_entry =
  count :: int
  first :: int

definition RATE_LIMIT_WINDOW_MS :: int where
  "RATE_LIMIT_WINDOW_MS = 60 * 1000"

definition RATE_LIMIT_MAX :: int where
  "RATE_LIMIT_MAX = 6"

text \<open>
  \<^verbatim>\<open>
  function isRateLimited(ip) {
    const now = Date.now();
    const entry = rateMap.get(ip) || { count: 0, first: now };
    if (now - entry.first > RATE_LIMIT_WINDOW_MS) {
      entry.count = 1; entry.first = now;
      rateMap.set(ip, entry);
      return false;
    }
    entry.count += 1;
    rateMap.set(ip, entry);
    return entry.count > RATE_LIMIT_MAX;
  }\<close>
  The module-level \<open>rateMap\<close> is passed in and returned; \<open>now\<close> is the reading of
  \<open>Date.now()\<close>.
\<close>

definition isRateLimited ::
  "jsstring \<Rightarrow> int \<Rightarrow> (jsstring \<rightharpoonup> rate_entry) \<Rightarrow> bool \<times> (jsstring \<rightharpoonup> rate_entry)" where
  "isRateLimited ip now rateMap =
     (let entry = (case rateMap ip of Some e \<Rightarrow> e | None \<Rightarrow> \<lparr>count = 0, first = now\<rparr>)
      in if now - first entry > RATE_LIMIT_WINDOW_MS
         then (False, rateMap(ip \<mapsto> entry\<lparr>count := 1, first := now\<rparr>))
         else (count entry + 1 > RATE_LIMIT_MAX,
               rateMap(ip \<mapsto> entry\<lparr>count := count entry + 1\<rparr>)))"


section \<open>submitComplaint.js: the handler\<close>

text \<open>
  The event of a call. \<open>headers\<close> maps a header name to its value, \<open>sourceIp\<close> is
  \<open>event.requestContext?.identity?.sourceIp\<close>. The body is given by what \<open>JSON.parse\<close>
  does with it: \<open>NoBody\<close> is an absent or empty body (\<open>undefined\<close>, \<open>null\<close>, \<open>''\<close>),
  \<open>Malformed\<close> a non-empty text that \<open>JSON.parse\<close> rejects with a SyntaxError,
  \<open>Decoded v\<close> a non-empty text that it decodes to \<open>v\<close>.
\<close>

datatype body = NoBody | Malformed | Decoded jsval

record event =
  httpMethod :: jsstring
  headers :: "jsstring \<rightharpoonup> jsstring"
  sourceIp :: "jsstring option"
  body :: body

text \<open>The environment variables read at module load.\<close>

record config =
  FUNCTION_SECRET :: jsstring
  ALLOWED_ORIGINS :: "jsstring list"

text \<open>
  What one call reads from outside the program: the clock (\<open>Date.now()\<close> in
  \<open>isRateLimited\<close> and in \<open>createComplaintId\<close>, \<open>new Date()\<close> for the document), the
  UUID, whether \<open>client.connect()\<close> and \<open>insertOne\<close> succeed, and the \<open>_id\<close> that the
  database gives the inserted document.
\<close>

record env =
  now_rate :: int
  now_id :: int
  now_doc :: int
  uuid :: jsstring
  connect_ok :: bool
  insert_ok :: bool
  new_oid :: jsstring

type_synonym doc = "(jsstring \<times> jsval) list"

datatype db_call = Connect | InsertOne doc

text \<open>
  The state that outlives a call: the module's \<open>rateMap\<close> and cached connection, the
  stored collection, and the calls made to the database driver so far.
\<close>

record state =
  rateMap :: "jsstring \<rightharpoonup> rate_entry"
  cachedClient :: bool
  coll :: "doc list"
  db_calls :: "db_call list"

text \<open>
  A response. The body is a literal text, \<open>JSON.stringify\<close> of a value,
  \<open>JSON.stringify({ error: error.message })\<close> for a caught error, or the reply of the
  status update, whose message interpolates the status.
\<close>

datatype resp_body =
    Text jsstring
  | Json jsval
  | ErrorMessage js_error
  | ComplaintMessage jsval

record response =
  statusCode :: nat
  resp_headers :: "(jsstring \<times> jsstring) list"
  resp_body :: resp_body

text \<open>A call returns a response or ends in an exception that nothing catches.\<close>

datatype outcome = Returned response | Threw js_error

text \<open>\<open>a || b\<close> where \<open>a\<close> is a string or \<open>undefined\<close>.\<close>

definition or_else :: "jsstring option \<Rightarrow> jsstring \<Rightarrow> jsstring" where
  "or_else a b = (case a of None \<Rightarrow> b | Some v \<Rightarrow> if v \<noteq> [] then v else b)"

definition cors_headers :: "config \<Rightarrow> (jsstring \<times> jsstring) list" where
  "cors_headers cfg =
     [(js ''Content-Type'', js ''application/json''),
      (js ''Access-Control-Allow-Origin'',
         if js ''*'' \<in> set (ALLOWED_ORIGINS cfg) then js ''*''
         else or_else (case ALLOWED_ORIGINS cfg of [] \<Rightarrow> None | x # xs \<Rightarrow> Some x) (js ''*'')),
      (js ''Access-Control-Allow-Methods'', js ''POST, OPTIONS''),
      (js ''Access-Control-Allow-Headers'', js ''Content-Type, X-Function-Secret'')]"

definition error_response :: "config \<Rightarrow> nat \<Rightarrow> string \<Rightarrow> response" where
  "error_response cfg code msg =
     \<lparr>statusCode = code, resp_headers = cors_headers cfg,
      resp_body = Json (JObj [(js ''error'', JStr (js msg))])\<rparr>"

definition too_many :: "config \<Rightarrow> response" where
  "too_many cfg = error_response cfg 429 ''Too many submissions. Try again later.''"

text \<open>The header read of the secret check and the caller key of the rate limiter.\<close>

definition provided_secret :: "event \<Rightarrow> jsstring" where
  "provided_secret ev =
     or_else (headers ev (js ''x-function-secret''))
       (or_else (headers ev (js ''X-Function-Secret'')) [])"

definition client_ip :: "event \<Rightarrow> jsstring" where
  "client_ip ev =
     or_else (headers ev (js ''x-nf-client-connection-ip''))
       (or_else (headers ev (js ''x-forwarded-for''))
          (or_else (sourceIp ev) (js ''unknown'')))"

text \<open>
  The reporter block (lines 141-157): the three sanitized sub-fields, the e-mail check,
  and the object built from the sub-fields that are non-empty. \<open>isEmail\<close> is
  \<open>validator.isEmail\<close>. \<open>None\<close> is the early return of the invalid e-mail.
\<close>

definition build_reporter :: "(jsstring \<Rightarrow> bool) \<Rightarrow> jsval \<Rightarrow> doc option" where
  "build_reporter isEmail r =
     (let rName = sanitizeString (own_prop r (js ''name'')) 100;
          rEmail = sanitizeString (own_prop r (js ''email'')) 254;
          rUsername = sanitizeString (own_prop r (js ''username'')) 100
      in if rEmail \<noteq> [] \<and> \<not> isEmail rEmail then None
         else Some ((if rName \<noteq> [] then [(js ''name'', JStr rName)] else []) @
                    (if rEmail \<noteq> [] then [(js ''email'', JStr rEmail)] else []) @
                    (if rUsername \<noteq> [] then [(js ''username'', JStr rUsername)] else [])))"

text \<open>The document literal of lines 185-195; \<open>reporter\<close> is \<open>None\<close> for \<open>null\<close>.\<close>

definition complaintDoc ::
  "jsstring \<Rightarrow> jsstring \<Rightarrow> jsstring \<Rightarrow> jsstring \<Rightarrow> jsstring \<Rightarrow> int \<Rightarrow> doc option \<Rightarrow> doc" where
  "complaintDoc complaintId department program title details now reporter =
     [(js ''complaintId'', JStr complaintId),
      (js ''department'', JStr department),
      (js ''program'', JStr program),
      (js ''title'', JStr title),
      (js ''details'', JStr details),
      (js ''status'', JStr (js ''pending'')),
      (js ''createdAt'', JDate now),
      (js ''updatedAt'', JDate now)] @
     (case reporter of None \<Rightarrow> [] | Some r \<Rightarrow> [(js ''reporter'', JObj r)])"

text \<open>
  \<^verbatim>\<open>
  try { payload = JSON.parse(event.body || '{}'); } catch (err) { return ... 'Invalid JSON' }\<close>
  \<open>None\<close> is the SyntaxError that the \<open>catch\<close> answers.
\<close>

definition payload_of :: "body \<Rightarrow> jsval option" where
  "payload_of b = (case b of NoBody \<Rightarrow> Some (JObj []) | Malformed \<Rightarrow> None | Decoded v \<Rightarrow> Some v)"

text \<open>
  Lines 123-195: from the body to the document to store, or to the response (or the
  exception) that ends the call before the database is reached. A decoded \<open>null\<close> makes
  \<open>payload.department\<close> throw outside every \<open>try\<close>.
\<close>

definition intake ::
  "config \<Rightarrow> (jsstring \<Rightarrow> bool) \<Rightarrow> env \<Rightarrow> body \<Rightarrow> outcome + doc" where
  "intake cfg isEmail e b =
     (case payload_of b of
        None \<Rightarrow> Inl (Returned (error_response cfg 400 ''Invalid JSON''))
      | Some payload \<Rightarrow>
         (case get_prop payload (js ''department'') of
            Inl err \<Rightarrow> Inl (Threw err)
          | Inr dep \<Rightarrow>
             (let department = sanitizeString dep 100;
                  program = sanitizeString (own_prop payload (js ''program'')) 100;
                  title = sanitizeString (own_prop payload (js ''title'')) 200;
                  details = sanitizeString (own_prop payload (js ''details'')) 4000;
                  r = own_prop payload (js ''reporter'');
                  reporter = (if truthy r \<and> typeof_object r
                              then map_option Some (build_reporter isEmail r)
                              else Some None)
              in case reporter of
                   None \<Rightarrow> Inl (Returned (error_response cfg 400 ''Invalid reporter email''))
                 | Some reporter \<Rightarrow>
                     if department = [] \<or> program = [] \<or> title = [] \<or> details = []
                     then Inl (Returned (error_response cfg 400 ''Missing required fields''))
                     else if length title < 5
                     then Inl (Returned (error_response cfg 400 ''Complaint title too short''))
                     else if length details < 10
                     then Inl (Returned (error_response cfg 400 ''Complaint details too short''))
                     else Inr (complaintDoc (createComplaintId (now_id e) (uuid e))
                                 department program title details (now_doc e) reporter))))"

text \<open>
  Lines 23-36 and 197-218: \<open>connectToDatabase\<close> (the cached client, or a new connection
  that may fail) and \<open>insertOne\<close>, inside the handler's \<open>try\<close>.
\<close>

definition store :: "config \<Rightarrow> env \<Rightarrow> doc \<Rightarrow> state \<Rightarrow> outcome \<times> state" where
  "store cfg e d st =
     (let st1 = (if cachedClient st then st else st\<lparr>db_calls := db_calls st @ [Connect]\<rparr>)
      in if \<not> cachedClient st \<and> \<not> connect_ok e
         then (Returned (error_response cfg 500 ''Internal server error''), st1)
         else
           (let st2 = st1\<lparr>cachedClient := True, db_calls := db_calls st1 @ [InsertOne d]\<rparr>
            in if \<not> insert_ok e
               then (Returned (error_response cfg 500 ''Internal server error''), st2)
               else (Returned
                       \<lparr>statusCode = 201, resp_headers = cors_headers cfg,
                        resp_body = Json (JObj
                          [(js ''success'', JBool True),
                           (js ''complaintId'', own_prop (JObj d) (js ''complaintId'')),
                           (js ''message'', JStr (js ''Complaint submitted successfully''))])\<rparr>,
                     st2\<lparr>coll := coll st2 @ [(js ''_id'', JOid (new_oid e)) # d]\<rparr>)))"

text \<open>
  \<open>exports.handler\<close> (lines 77-219): the method checks, the optional secret, the rate
  limiter, then the intake and the insert.
\<close>

definition handler ::
  "config \<Rightarrow> (jsstring \<Rightarrow> bool) \<Rightarrow> env \<Rightarrow> event \<Rightarrow> state \<Rightarrow> outcome \<times> state" where
  "handler cfg isEmail e ev st =
     (if httpMethod ev = js ''OPTIONS''
      then (Returned \<lparr>statusCode = 204, resp_headers = cors_headers cfg, resp_body = Text []\<rparr>, st)
      else if httpMethod ev \<noteq> js ''POST''
      then (Returned (error_response cfg 405 ''Method not allowed''), st)
      else if FUNCTION_SECRET cfg \<noteq> [] \<and> provided_secret ev \<noteq> FUNCTION_SECRET cfg
      then (Returned (error_response cfg 401 ''Unauthorized''), st)
      else
        (let (limited, rm) = isRateLimited (client_ip ev) (now_rate e) (rateMap st);
             st1 = st\<lparr>rateMap := rm\<rparr>
         in if limited
            then (Returned (too_many cfg), st1)
            else (case intake cfg isEmail e (body ev) of
                    Inl out \<Rightarrow> (out, st1)
                  | Inr d \<Rightarrow> store cfg e d st1)))"

text \<open>The method and secret checks let the call through to the rate limiter.\<close>

definition passes_gate :: "config \<Rightarrow> event \<Rightarrow> bool" where
  "passes_gate cfg ev \<longleftrightarrow>
     httpMethod ev = js ''POST'' \<and>
     (FUNCTION_SECRET cfg = [] \<or> provided_secret ev = FUNCTION_SECRET cfg)"

text \<open>The limiter counts a call for the key \<open>ip\<close>: the call gets past the method and
  secret checks and \<open>ip\<close> is its caller key.\<close>

definition counted :: "config \<Rightarrow> jsstring \<Rightarrow> env \<times> event \<Rightarrow> bool" where
  "counted cfg ip c \<longleftrightarrow> passes_gate cfg (snd c) \<and> client_ip (snd c) = ip"

text \<open>A sequence of calls, each with its own environment, threading the state.\<close>

fun calls ::
  "config \<Rightarrow> (jsstring \<Rightarrow> bool) \<Rightarrow> (env \<times> event) list \<Rightarrow> state \<Rightarrow> outcome list \<times> state" where
  "calls cfg isEmail [] st = ([], st)"
| "calls cfg isEmail ((e, ev) # rest) st =
     (let (out, st1) = handler cfg isEmail e ev st;
          (outs, st2) = calls cfg isEmail rest st1
      in (out # outs, st2))"


section \<open>The collection\<close>

text \<open>
  The driver calls of the other handlers, on the collection as a list of documents.
  \<open>updateOne(filter, { $set: sets })\<close> changes the first document that the filter
  matches: each field named is replaced, or added when the document lacks it.
  \<open>findOne\<close> returns the first match, \<open>deleteOne\<close> removes it.
\<close>

definition set_fields :: "(jsstring \<times> jsval) list \<Rightarrow> doc \<Rightarrow> doc" where
  "set_fields sets d = fold (\<lambda>(k, v). AList.update k v) sets d"

fun updateOne :: "(doc \<Rightarrow> bool) \<Rightarrow> (jsstring \<times> jsval) list \<Rightarrow> doc list \<Rightarrow> doc list" where
  "updateOne flt sets [] = []"
| "updateOne flt sets (d # ds) =
     (if flt d then set_fields sets d # ds else d # updateOne flt sets ds)"

definition findOne :: "(doc \<Rightarrow> bool) \<Rightarrow> doc list \<Rightarrow> doc option" where
  "findOne flt ds = find flt ds"

fun deleteOne :: "(doc \<Rightarrow> bool) \<Rightarrow> doc list \<Rightarrow> doc list" where
  "deleteOne flt [] = []"
| "deleteOne flt (d # ds) = (if flt d then ds else d # deleteOne flt ds)"

text \<open>The filter \<open>{ _id: oid }\<close>.\<close>

definition has_id :: "jsstring \<Rightarrow> doc \<Rightarrow> bool" where
  "has_id oid d \<longleftrightarrow> map_of d (js ''_id'') = Some (JOid oid)"

text \<open>A value as BSON stores it: the driver writes \<open>undefined\<close> as \<open>null\<close>.\<close>

definition to_bson :: "jsval \<Rightarrow> jsval" where
  "to_bson v = (if v = JUndefined then JNull else v)"

text \<open>
  \<open>JSON.parse(event.body)\<close> of the handlers below, which give no default body. An
  absent or empty body ends in an exception there (a SyntaxError; for the body \<open>null\<close> a
  TypeError at the destructuring), which the \<open>catch\<close> answers with 500 either way; the
  model has the SyntaxError for both.
\<close>

definition parse_body :: "body \<Rightarrow> js_error + jsval" where
  "parse_body b = (case b of NoBody \<Rightarrow> Inl SyntaxError | Malformed \<Rightarrow> Inl SyntaxError
                   | Decoded v \<Rightarrow> Inr v)"

text \<open>What a call of these handlers reads from outside: whether \<open>client.connect()\<close>
  and the one query succeed.\<close>

record db_env =
  db_connect_ok :: bool
  db_query_ok :: bool

definition failure :: "js_error \<Rightarrow> response" where
  "failure err = \<lparr>statusCode = 500, resp_headers = [], resp_body = ErrorMessage err\<rparr>"

section \<open>updateComplaint.js\<close>

text \<open>
  \<^verbatim>\<open>
  const { id, action } = JSON.parse(event.body);
  let status = action;
  if (action === "approve") status = "approved";
  if (action === "reject") status = "rejected";
  await client.connect();
  const db = client.db("complaintsDB");
  await db.collection("complaints").updateOne(
    { _id: new ObjectId(id) },
    { $set: { status } }
  );
  return { statusCode: 200,
           body: JSON.stringify({ success: true, message: `Complaint ${status}` }) };\<close>
  Every exception is caught and answered with 500. \<open>newObjectId\<close> is the driver's
  \<open>new ObjectId(id)\<close>, which throws on an \<open>id\<close> it does not accept.
\<close>

definition action_status :: "jsval \<Rightarrow> jsval" where
  "action_status action =
     (let status = action;
          status = (if action = JStr (js ''approve'') then JStr (js ''approved'') else status);
          status = (if action = JStr (js ''reject'') then JStr (js ''rejected'') else status)
      in status)"

definition updateComplaint ::
  "(jsval \<Rightarrow> js_error + jsstring) \<Rightarrow> db_env \<Rightarrow> body \<Rightarrow> doc list \<Rightarrow> response \<times> doc list" where
  "updateComplaint newObjectId e b ds =
     (case parse_body b of
        Inl err \<Rightarrow> (failure err, ds)
      | Inr parsed \<Rightarrow>
         (case get_prop parsed (js ''id'') of
            Inl err \<Rightarrow> (failure err, ds)
          | Inr idv \<Rightarrow>
             (let action = own_prop parsed (js ''action'');
                  status = action_status action
              in if \<not> db_connect_ok e then (failure MongoError, ds)
                 else (case newObjectId idv of
                         Inl err \<Rightarrow> (failure err, ds)
                       | Inr oid \<Rightarrow>
                           if \<not> db_query_ok e then (failure MongoError, ds)
                           else (\<lparr>statusCode = 200, resp_headers = [],
                                  resp_body = ComplaintMessage status\<rparr>,
                                 updateOne (has_id oid) [(js ''status'', to_bson status)] ds)))))"

text \<open>
  The other copy of the update handler takes the status itself from the body:
  \<^verbatim>\<open>
  const { id, status } = JSON.parse(event.body);
  await client.connect();
  await db.collection("complaints").updateOne({ _id: new ObjectId(id) }, { $set: { status } });
  return { statusCode: 200,
           body: JSON.stringify({ success: true, message: "Complaint updated" }) };\<close>
\<close>

definition updateComplaint_status ::
  "(jsval \<Rightarrow> js_error + jsstring) \<Rightarrow> db_env \<Rightarrow> body \<Rightarrow> doc list \<Rightarrow> response \<times> doc list" where
  "updateComplaint_status newObjectId e b ds =
     (case parse_body b of
        Inl err \<Rightarrow> (failure err, ds)
      | Inr parsed \<Rightarrow>
         (case get_prop parsed (js ''id'') of
            Inl err \<Rightarrow> (failure err, ds)
          | Inr idv \<Rightarrow>
             (let status = own_prop parsed (js ''status'')
              in if \<not> db_connect_ok e then (failure MongoError, ds)
                 else (case newObjectId idv of
                         Inl err \<Rightarrow> (failure err, ds)
                       | Inr oid \<Rightarrow>
                           if \<not> db_query_ok e then (failure MongoError, ds)
                           else (\<lparr>statusCode = 200, resp_headers = [],
                                  resp_body = Json (JObj
                                    [(js ''success'', JBool True),
                                     (js ''message'', JStr (js ''Complaint updated''))])\<rparr>,
                                 updateOne (has_id oid) [(js ''status'', to_bson status)] ds)))))"

section \<open>deleteComplaint.js\<close>

text \<open>
  \<^verbatim>\<open>
  const { id } = JSON.parse(event.body);
  await client.connect();
  const db = client.db("complaintsDB");
  await db.collection("complaints").deleteOne({ _id: new ObjectId(id) });
  return { statusCode: 200,
           body: JSON.stringify({ success: true, message: "Complaint deleted" }) };\<close>
\<close>

definition deleteComplaint ::
  "(jsval \<Rightarrow> js_error + jsstring) \<Rightarrow> db_env \<Rightarrow> body \<Rightarrow> doc list \<Rightarrow> response \<times> doc list" where
  "deleteComplaint newObjectId e b ds =
     (case parse_body b of
        Inl err \<Rightarrow> (failure err, ds)
      | Inr parsed \<Rightarrow>
         (case get_prop parsed (js ''id'') of
            Inl err \<Rightarrow> (failure err, ds)
          | Inr idv \<Rightarrow>
              if \<not> db_connect_ok e then (failure MongoError, ds)
              else (case newObjectId idv of
                      Inl err \<Rightarrow> (failure err, ds)
                    | Inr oid \<Rightarrow>
                        if \<not> db_query_ok e then (failure MongoError, ds)
                        else (\<lparr>statusCode = 200, resp_headers = [],
                               resp_body = Json (JObj
                                 [(js ''success'', JBool True),
                                  (js ''message'', JStr (js ''Complaint deleted''))])\<rparr>,
                              deleteOne (has_id oid) ds))))"

text \<open>An \<open>ObjectId\<close> constructor for the examples: it accepts the strings of 24
  hexadecimal digits, which every version of the driver reads as that id.\<close>

definition is_hex :: "jschar \<Rightarrow> bool" where
  "is_hex c \<longleftrightarrow> (0x30 \<le> c \<and> c \<le> 0x39) \<or> (0x61 \<le> c \<and> c \<le> 0x66) \<or> (0x41 \<le> c \<and> c \<le> 0x46)"

definition hexObjectId :: "jsval \<Rightarrow> js_error + jsstring" where
  "hexObjectId v =
     (case v of
        JStr s \<Rightarrow> if length s = 24 \<and> list_all is_hex s
                  then Inr (map (\<lambda>c. if 0x41 \<le> c \<and> c \<le> 0x46 then c + 0x20 else c) s)
                  else Inl BSONError
      | _ \<Rightarrow> Inl BSONError)"

section \<open>getComplaintById.js\<close>

text \<open>\<open>JSON.stringify\<close> of an object literal leaves out the members that are
  \<open>undefined\<close>.\<close>

definition defined_members :: "(jsstring \<times> jsval) list \<Rightarrow> (jsstring \<times> jsval) list" where
  "defined_members kvs = filter (\<lambda>(k, v). v \<noteq> JUndefined) kvs"

text \<open>
  \<^verbatim>\<open>
  const { complaintId } = JSON.parse(event.body);
  if (!complaintId) return { statusCode: 400, ... "complaintId is required" };
  await client.connect();
  const complaint = await db.collection("complaints").findOne({ complaintId });
  if (!complaint) return { statusCode: 404, ... "Complaint not found" };
  // Return only safe fields
  return { statusCode: 200,
    body: JSON.stringify({
      complaintId: complaint.complaintId,
      title: complaint.title,
      status: complaint.status || "pending", // default if not set
      createdAt: complaint.createdAt }) };\<close>
  \<open>matches v d\<close> says whether the database matches the filter \<open>{ complaintId: v }\<close>
  against the document \<open>d\<close>.
\<close>

definition safe_fields :: "doc \<Rightarrow> jsval" where
  "safe_fields complaint =
     JObj (defined_members
       [(js ''complaintId'', own_prop (JObj complaint) (js ''complaintId'')),
        (js ''title'', own_prop (JObj complaint) (js ''title'')),
        (js ''status'',
           (let s = own_prop (JObj complaint) (js ''status'')
            in if truthy s then s else JStr (js ''pending''))),
        (js ''createdAt'', own_prop (JObj complaint) (js ''createdAt''))])"

definition getComplaintById ::
  "(jsval \<Rightarrow> doc \<Rightarrow> bool) \<Rightarrow> db_env \<Rightarrow> body \<Rightarrow> doc list \<Rightarrow> response" where
  "getComplaintById matches e b ds =
     (case parse_body b of
        Inl err \<Rightarrow> failure err
      | Inr parsed \<Rightarrow>
         (case get_prop parsed (js ''complaintId'') of
            Inl err \<Rightarrow> failure err
          | Inr complaintId \<Rightarrow>
              if \<not> truthy complaintId
              then \<lparr>statusCode = 400, resp_headers = [],
                    resp_body = Json (JObj [(js ''error'', JStr (js ''complaintId is required''))])\<rparr>
              else if \<not> db_connect_ok e then failure MongoError
              else if \<not> db_query_ok e then failure MongoError
              else (case findOne (matches complaintId) ds of
                      None \<Rightarrow>
                        \<lparr>statusCode = 404, resp_headers = [],
                         resp_body = Json (JObj [(js ''error'', JStr (js ''Complaint not found''))])\<rparr>
                    | Some complaint \<Rightarrow>
                        \<lparr>statusCode = 200, resp_headers = [],
                         resp_body = Json (safe_fields complaint)\<rparr>)))"

text \<open>The match of a filter whose value is a string: the field holds that string.\<close>

definition field_equals :: "jsval \<Rightarrow> doc \<Rightarrow> bool" where
  "field_equals v d \<longleftrightarrow> map_of d (js ''complaintId'') = Some v"


section \<open>Example data\<close>

text \<open>
  The data of the worked examples: no secret configured, a POST from one address, a
  clock reading \<open>t\<close> for every clock read of a call, a database that answers, and an
  empty initial state. \<open>contains_at\<close> stands in for \<open>validator.isEmail\<close> there: it asks
  for an \<open>@\<close>, which every e-mail grammar does.
\<close>

definition example_config :: config where
  "example_config = \<lparr>FUNCTION_SECRET = [], ALLOWED_ORIGINS = [js ''*'']\<rparr>"

definition example_env :: "int \<Rightarrow> env" where
  "example_env t =
     \<lparr>now_rate = t, now_id = t, now_doc = t,
      uuid = js ''3f2a9c1e-7b4d-4e8a-9c0f-1a2b3c4d5e6f'',
      connect_ok = True, insert_ok = True,
      new_oid = js ''65f1a2b3c4d5e6f708192a3b''\<rparr>"

definition other_event :: "body \<Rightarrow> event" where
  "other_event b =
     \<lparr>httpMethod = js ''POST'',
      headers = [js ''x-forwarded-for'' \<mapsto> js ''198.51.100.9''],
      sourceIp = None,
      body = b\<rparr>"

definition example_event :: "body \<Rightarrow> event" where
  "example_event b =
     \<lparr>httpMethod = js ''POST'',
      headers = [js ''x-forwarded-for'' \<mapsto> js ''203.0.113.7''],
      sourceIp = None,
      body = b\<rparr>"

definition empty_state :: state where
  "empty_state = \<lparr>rateMap = Map.empty, cachedClient = False, coll = [], db_calls = []\<rparr>"

definition example_payload :: "(jsstring \<times> jsval) list" where
  "example_payload =
     [(js ''department'', JStr (js ''CS'')),
      (js ''program'', JStr (js ''B.Tech'')),
      (js ''title'', JStr (js ''Broken AC'')),
      (js ''details'', JStr (js ''The AC in room 204 has been broken for two weeks.''))]"

definition contains_at :: "jsstring \<Rightarrow> bool" where
  "contains_at s \<longleftrightarrow> 0x40 \<in> set s"


text \<open>The status code of a call that returned.\<close>

definition returned_status :: "outcome \<Rightarrow> nat option" where
  "returned_status out = (case out of Returned res \<Rightarrow> Some (statusCode res) | Threw err \<Rightarrow> None)"

text \<open>The bodies that are valid JSON but neither an object nor \<open>null\<close>.\<close>

fun bare_value :: "jsval \<Rightarrow> bool" where
  "bare_value (JBool b) = True"
| "bare_value (JNum n) = True"
| "bare_value (JStr s) = True"
| "bare_value (JArr xs) = True"
| "bare_value v = False"

text \<open>The collection after the example payload was submitted at 1700000000000, a
  database that answers, and a status update for that complaint.\<close>

definition example_complaints :: "doc list" where
  "example_complaints =
     [(js ''_id'', JOid (js ''65f1a2b3c4d5e6f708192a3b'')) #
      complaintDoc (js ''COMP-loyw3v28-3F2A9C1E'') (js ''CS'') (js ''B.Tech'') (js ''Broken AC'')
        (js ''The AC in room 204 has been broken for two weeks.'') 1700000000000 None]"

definition db_up :: db_env where
  "db_up = \<lparr>db_connect_ok = True, db_query_ok = True\<rparr>"

definition update_request :: "string \<Rightarrow> body" where
  "update_request action =
     Decoded (JObj [(js ''id'', JStr (js ''65f1a2b3c4d5e6f708192a3b'')),
                    (js ''action'', JStr (js action))])"

section \<open>Facts about strings\<close>

declare digits36.simps [simp del]

lemma of_char_word_inject: "(of_char c :: jschar) = of_char d \<longleftrightarrow> c = d"
proof
  assume "(of_char c :: jschar) = of_char d"
  then have "unat (of_nat (of_char c) :: jschar) = unat (of_nat (of_char d) :: jschar)"
    by (simp add: of_nat_of_char)
  moreover have "(of_char x :: nat) < 65536" for x
    using of_char_mod_256 [of x, where ?'a = nat] mod_less_divisor [of 256 "of_char x"]
    by linarith
  ultimately have "(of_char c :: nat) = of_char d"
    by (simp add: unat_of_nat)
  then show "c = d" by simp
qed simp

lemma js_inject [simp]: "js a = js b \<longleftrightarrow> a = b"
  unfolding js_def by (simp add: inj_map_eq_map inj_on_def of_char_word_inject)

lemma js_empty [simp]: "js s = [] \<longleftrightarrow> s = []" "length (js s) = length s"
  by (simp_all add: js_def)

subsection \<open>Trimming\<close>

lemma rtrim_prefix: "\<exists>k. rtrim s = take k s"
proof -
  have "dropWhile is_space (rev s) = drop (length (takeWhile is_space (rev s))) (rev s)"
    by (rule dropWhile_eq_drop)
  then have "rtrim s = rev (drop (length (takeWhile is_space (rev s))) (rev s))"
    by (simp add: rtrim_def)
  also have "\<dots> = take (length s - length (takeWhile is_space (rev s))) s"
    by (simp add: rev_drop)
  finally show ?thesis by blast
qed

lemma trimmed_iff: "trimmed s \<longleftrightarrow> s = [] \<or> (\<not> is_space (hd s) \<and> \<not> is_space (last s))"
  by (cases s) (simp_all add: trimmed_def)

lemma ltrim_hd: "ltrim s \<noteq> [] \<Longrightarrow> \<not> is_space (hd (ltrim s))"
  unfolding ltrim_def by (rule hd_dropWhile)

lemma rtrim_last: "rtrim s \<noteq> [] \<Longrightarrow> \<not> is_space (last (rtrim s))"
  unfolding rtrim_def by (simp add: last_rev hd_dropWhile)

lemma rtrim_hd: "rtrim s \<noteq> [] \<Longrightarrow> hd (rtrim s) = hd s"
proof -
  assume ne: "rtrim s \<noteq> []"
  obtain k where k: "rtrim s = take k s" using rtrim_prefix by blast
  with ne have "0 < k" "s \<noteq> []" by auto
  then show ?thesis using k by (simp add: hd_take)
qed

lemma trimmed_validator_trim: "trimmed (validator_trim s)"
proof (cases "validator_trim s = []")
  case True
  then show ?thesis by (simp add: trimmed_iff)
next
  case False
  then have ne: "rtrim (ltrim s) \<noteq> []" by (simp add: validator_trim_def)
  then have "ltrim s \<noteq> []" by (auto simp: rtrim_def)
  then have "\<not> is_space (hd (ltrim s))" by (rule ltrim_hd)
  with ne have "\<not> is_space (hd (rtrim (ltrim s)))" by (simp add: rtrim_hd)
  moreover from ne have "\<not> is_space (last (rtrim (ltrim s)))" by (rule rtrim_last)
  ultimately show ?thesis by (simp add: trimmed_iff validator_trim_def)
qed

lemma validator_trim_trimmed: "trimmed s \<Longrightarrow> validator_trim s = s"
proof (cases "s = []")
  case True
  then show ?thesis by (simp add: validator_trim_def ltrim_def rtrim_def)
next
  case False
  assume "trimmed s"
  with False have h: "\<not> is_space (hd s)" and l: "\<not> is_space (last s)"
    by (simp_all add: trimmed_iff)
  from h False have "ltrim s = s" by (simp add: ltrim_def dropWhile_eq_self_iff)
  moreover have "rtrim s = s"
  proof -
    from l False have "dropWhile is_space (rev s) = rev s"
      by (simp add: dropWhile_eq_self_iff hd_rev)
    then show ?thesis by (simp add: rtrim_def)
  qed
  ultimately show ?thesis by (simp add: validator_trim_def)
qed

lemma validator_trim_fixed: "validator_trim s = s \<longleftrightarrow> trimmed s"
  using trimmed_validator_trim [of s] validator_trim_trimmed [of s] by auto

lemma validator_trim_set: "set (validator_trim s) \<subseteq> set s"
proof -
  have "set (rtrim (ltrim s)) \<subseteq> set (ltrim s)"
    by (auto simp: rtrim_def dest: set_dropWhileD)
  also have "\<dots> \<subseteq> set s" by (auto simp: ltrim_def dest: set_dropWhileD)
  finally show ?thesis by (simp add: validator_trim_def)
qed

lemma validator_trim_length: "length (validator_trim s) \<le> length s"
proof -
  have "length (rtrim (ltrim s)) \<le> length (ltrim s)"
    by (simp add: rtrim_def length_dropWhile_le [of is_space "rev (ltrim s)", simplified])
  also have "\<dots> \<le> length s" by (simp add: ltrim_def length_dropWhile_le)
  finally show ?thesis by (simp add: validator_trim_def)
qed

subsection \<open>sanitizeString\<close>

lemma sanitizeString_no_NUL: "0 \<notin> set (sanitizeString v n)"
  by (cases v) (auto simp: Let_def dest: in_set_takeD)

lemma sanitizeString_length: "length (sanitizeString v n) \<le> n"
  by (cases v) (auto simp: Let_def)

lemma sanitize_non_string:
  "sanitizeString JUndefined n = []" "sanitizeString JNull n = []"
  "sanitizeString (JBool b) n = []" "sanitizeString (JNum i) n = []"
  "sanitizeString (JArr xs) n = []" "sanitizeString (JObj kvs) n = []"
  by simp_all

text \<open>A second pass has nothing left to strip or cut: it only trims again.\<close>

lemma sanitizeString_twice:
  "sanitizeString (JStr (sanitizeString v n)) n = validator_trim (sanitizeString v n)"
proof -
  let ?r = "sanitizeString v n"
  have "0 \<notin> set (validator_trim ?r)"
    using validator_trim_set [of ?r] sanitizeString_no_NUL [of v n] by blast
  then have "filter (\<lambda>c. c \<noteq> 0) (validator_trim ?r) = validator_trim ?r"
    by (auto simp: filter_id_conv)
  moreover have "length (validator_trim ?r) \<le> n"
    using validator_trim_length [of ?r] sanitizeString_length [of v n] by linarith
  ultimately show ?thesis by (simp add: Let_def)
qed

lemma sanitize_examples:
  "sanitizeString (JStr (js ''CS'')) 100 = js ''CS''"
  "sanitizeString (JStr (js ''B.Tech'')) 100 = js ''B.Tech''"
  "sanitizeString (JStr (js ''Broken AC'')) 200 = js ''Broken AC''"
  "sanitizeString (JStr (js ''Bad'')) 200 = js ''Bad''"
  "sanitizeString (JStr (js ''The AC in room 204 has been broken for two weeks.'')) 4000
     = js ''The AC in room 204 has been broken for two weeks.''"
  "sanitizeString (JStr (js ''   '')) 254 = []"
  "sanitizeString (JStr (js ''   '')) 100 = []"
  "sanitizeString (JStr (js ''not-an-email'')) 254 = js ''not-an-email''"
  "sanitizeString (JStr (js ''Ada'')) 100 = js ''Ada''"
  "sanitizeString (JStr (js '' ada@example.org '')) 254 = js ''ada@example.org''"
  by (simp_all add: js_def validator_trim_def ltrim_def rtrim_def is_space_def)

text \<open>
  C3. The claim: sanitizing is idempotent, \<open>sanitize(sanitize(s, n), n) = sanitize(s, n)\<close>
  for every string \<open>s\<close> and maximum length \<open>n\<close>. The code trims before it strips NUL
  and cuts to \<open>n\<close>, so a result can begin or end with white space, which a second pass
  trims. What holds: a second pass returns the first result exactly when that result
  neither begins nor ends with white space.
\<close>

theorem sanitizeString_idempotent_iff:
  "sanitizeString (JStr (sanitizeString v n)) n = sanitizeString v n
     \<longleftrightarrow> trimmed (sanitizeString v n)"
  by (simp only: sanitizeString_twice validator_trim_fixed)

text \<open>An instance where the second pass changes nothing: \<open>" Broken AC "\<close>.\<close>

theorem sanitizeString_idempotent_iff_witness:
  "trimmed (sanitizeString (JStr (js '' Broken AC '')) 200) \<and>
   sanitizeString (JStr (sanitizeString (JStr (js '' Broken AC '')) 200)) 200
     = sanitizeString (JStr (js '' Broken AC '')) 200"
proof -
  have "trimmed (sanitizeString (JStr (js '' Broken AC '')) 200)"
    by (simp add: js_def validator_trim_def ltrim_def rtrim_def is_space_def trimmed_def)
  then show ?thesis
    using sanitizeString_idempotent_iff [of "JStr (js '' Broken AC '')" 200] by simp
qed

text \<open>
  Where the claim fails: \<open>"a b"\<close> cut to 2 is \<open>"a "\<close>, and \<open>"\0 a"\<close> without its NUL
  is \<open>" a"\<close>; a second pass trims both to \<open>"a"\<close>.
\<close>

theorem sanitizeString_not_idempotent:
  "sanitizeString (JStr (sanitizeString (JStr (js ''a b'')) 2)) 2
     \<noteq> sanitizeString (JStr (js ''a b'')) 2 \<and>
   sanitizeString (JStr (sanitizeString (JStr [0, 0x20, 0x61]) 10)) 10
     \<noteq> sanitizeString (JStr [0, 0x20, 0x61]) 10"
  by (simp add: js_def validator_trim_def ltrim_def rtrim_def is_space_def)

section \<open>Complaint identifiers\<close>

lemma digit36_lower_alnum: "d < 36 \<Longrightarrow> is_lower_alnum (digit36 d)"
proof -
  assume d: "d < 36"
  show ?thesis
  proof (cases "d < 10")
    case True
    then have "unat (0x30 + of_nat d :: jschar) = 48 + d"
      by (simp add: unat_word_ariths unat_of_nat)
    with True show ?thesis
      by (simp add: digit36_def is_lower_alnum_def word_le_nat_alt)
  next
    case False
    with d have "unat (0x61 + of_nat (d - 10) :: jschar) = 97 + (d - 10)"
      by (simp add: unat_word_ariths unat_of_nat)
    with False d show ?thesis
      by (simp add: digit36_def is_lower_alnum_def word_le_nat_alt)
  qed
qed

lemma digits36_lower_alnum: "list_all is_lower_alnum (digits36 n)"
proof (induction n rule: digits36.induct)
  case (1 n)
  show ?case
  proof (cases "n < 36")
    case True
    then show ?thesis by (simp add: digits36.simps [of n] digit36_lower_alnum)
  next
    case False
    with "1" show ?thesis
      by (simp add: digits36.simps [of n] digit36_lower_alnum)
  qed
qed

lemma digits36_nonempty: "digits36 n \<noteq> []"
  by (subst digits36.simps) simp

lemma toString36_nonneg:
  "0 \<le> i \<Longrightarrow> toString36 i \<noteq> [] \<and> list_all is_lower_alnum (toString36 i)"
  by (simp add: toString36_def digits36_nonempty digits36_lower_alnum)

lemma lower_hex_not_dash: "is_lower_hex c \<Longrightarrow> c \<noteq> 0x2D"
  by (auto simp: is_lower_hex_def)

lemma uuid_first_segment:
  assumes "is_uuid u"
  shows "split_dash_first u = take 8 u"
    and "list_all is_lower_hex (take 8 u)"
    and "length (take 8 u) = 8"
proof -
  from assms have len: "length u = 36" and hex8: "list_all is_lower_hex (take 8 u)"
    and dash: "u ! 8 = 0x2D"
    by (simp_all add: is_uuid_def)
  have hex: "is_lower_hex (u ! i)" if "i < 8" for i
    using hex8 that len by (auto simp: list_all_length)
  show "split_dash_first u = take 8 u"
    unfolding split_dash_first_def
    by (rule takeWhile_eq_take_P_nth) (use hex dash len in \<open>auto dest: lower_hex_not_dash\<close>)
  show "list_all is_lower_hex (take 8 u)" by (rule hex8)
  show "length (take 8 u) = 8" using len by simp
qed

lemma upper_of_lower_hex:
  "is_lower_hex c \<Longrightarrow> is_upper_alnum (if 0x61 \<le> c \<and> c \<le> 0x7A then c - 0x20 else c)"
proof -
  assume h: "is_lower_hex c"
  show ?thesis
  proof (cases "0x61 \<le> c \<and> c \<le> 0x66")
    case True
    then have b: "97 \<le> unat c" "unat c \<le> 102" by (simp_all add: word_le_nat_alt)
    then have "unat (c - 0x20) = unat c - 32"
      by (simp add: unat_sub word_le_nat_alt)
    with b have "0x41 \<le> c - 0x20 \<and> c - 0x20 \<le> 0x5A"
      unfolding word_le_nat_alt by simp arith
    moreover from b have "0x61 \<le> c \<and> c \<le> 0x7A" by (simp add: word_le_nat_alt)
    ultimately show ?thesis by (simp add: is_upper_alnum_def)
  next
    case False
    with h have d: "0x30 \<le> c \<and> c \<le> 0x39" by (auto simp: is_lower_hex_def)
    then have "\<not> (0x61 \<le> c)" by (simp add: word_le_nat_alt)
    with d show ?thesis by (simp add: is_upper_alnum_def)
  qed
qed

lemma toUpperCase_hex: "list_all is_lower_hex s \<Longrightarrow> list_all is_upper_alnum (toUpperCase s)"
  by (induction s) (simp_all add: toUpperCase_def upper_of_lower_hex)

lemma dash_not_lower_alnum: "\<not> is_lower_alnum 0x2D"
  by (simp add: is_lower_alnum_def)

text \<open>The matcher accepts exactly the strings of the pattern's shape.\<close>

lemma matches_id_patternI:
  assumes "ts \<noteq> []" "list_all is_lower_alnum ts" "length rnd = 8" "list_all is_upper_alnum rnd"
  shows "matches_id_pattern (js ''COMP-'' @ ts @ js ''-'' @ rnd)"
proof -
  have l: "length (js ''COMP-'') = 5" by simp
  have d: "js ''-'' = [0x2D]" by (simp add: js_def)
  from assms(2) have all: "\<forall>x\<in>set ts. is_lower_alnum x" by (simp add: list_all_iff)
  have tw: "takeWhile is_lower_alnum (ts @ 0x2D # rnd) = ts"
    using all dash_not_lower_alnum by (simp add: takeWhile_append2)
  have dw: "dropWhile is_lower_alnum (ts @ 0x2D # rnd) = 0x2D # rnd"
    using all dash_not_lower_alnum by (simp add: dropWhile_append2)
  show ?thesis
    unfolding matches_id_pattern_def
    using l assms(1,3,4) by (simp add: d tw dw Let_def)
qed

lemma matches_id_patternD:
  assumes "matches_id_pattern s"
  shows "\<exists>ts rnd. s = js ''COMP-'' @ ts @ js ''-'' @ rnd \<and> ts \<noteq> [] \<and>
           list_all is_lower_alnum ts \<and> length rnd = 8 \<and> list_all is_upper_alnum rnd"
proof -
  let ?r = "drop 5 s"
  from assms have p: "take 5 s = js ''COMP-''" and ne: "takeWhile is_lower_alnum ?r \<noteq> []"
    by (simp_all add: matches_id_pattern_def Let_def)
  from assms obtain rnd where dw: "dropWhile is_lower_alnum ?r = 0x2D # rnd"
    and rnd: "length rnd = 8" "list_all is_upper_alnum rnd"
    by (auto simp: matches_id_pattern_def Let_def split: list.splits)
  have "s = take 5 s @ ?r" by simp
  also have "?r = takeWhile is_lower_alnum ?r @ dropWhile is_lower_alnum ?r" by simp
  finally have "s = js ''COMP-'' @ takeWhile is_lower_alnum ?r @ js ''-'' @ rnd"
    by (simp add: p dw js_def)
  moreover have "list_all is_lower_alnum (takeWhile is_lower_alnum ?r)"
    by (auto simp: list_all_iff dest: set_takeWhileD)
  ultimately show ?thesis using ne rnd by blast
qed

lemma example_uuid: "is_uuid (js ''3f2a9c1e-7b4d-4e8a-9c0f-1a2b3c4d5e6f'')"
  by (simp add: is_uuid_def js_def is_lower_hex_def)

text \<open>The identifier generated at 1700000000000 with the example UUID.\<close>

lemma digits36_example: "digits36 1700000000000 = js ''loyw3v28''"
  by (simp add: digits36.simps [of "numeral n" for n] digits36.simps [of 0]
      digits36.simps [of 1] digit36_def js_def)

lemma createComplaintId_example:
  "createComplaintId 1700000000000 (js ''3f2a9c1e-7b4d-4e8a-9c0f-1a2b3c4d5e6f'')
     = js ''COMP-loyw3v28-3F2A9C1E''"
  by (simp add: createComplaintId_def toString36_def digits36_example split_dash_first_def
      toUpperCase_def js_def [of "''3f2a9c1e-7b4d-4e8a-9c0f-1a2b3c4d5e6f''"]
      js_def [of "''COMP-loyw3v28-3F2A9C1E''"] js_def [of "''loyw3v28''"]
      js_def [of "''COMP-''"] js_def [of "''-''"])

subsection \<open>The parts of an identifier\<close>

lemma digit36_value_digit36: "d < 36 \<Longrightarrow> digit36_value (digit36 d) = d"
proof -
  assume d: "d < 36"
  show ?thesis
  proof (cases "d < 10")
    case True
    then have u: "unat (0x30 + of_nat d :: jschar) = 48 + d"
      by (simp add: unat_word_ariths unat_of_nat)
    with True have "(0x30 + of_nat d :: jschar) \<le> 0x39"
      by (simp add: word_le_nat_alt)
    with True u show ?thesis by (simp add: digit36_def digit36_value_def)
  next
    case False
    with d have u: "unat (0x61 + of_nat (d - 10) :: jschar) = 97 + (d - 10)"
      by (simp add: unat_word_ariths unat_of_nat)
    then have "\<not> (0x61 + of_nat (d - 10) :: jschar) \<le> 0x39"
      by (simp add: word_le_nat_alt)
    with False u show ?thesis by (simp add: digit36_def digit36_value_def)
  qed
qed

lemma base36_value_snoc: "base36_value (s @ [c]) = base36_value s * 36 + digit36_value c"
  by (simp add: base36_value_def)

text \<open>The digits written for \<open>n\<close> denote \<open>n\<close>.\<close>

lemma base36_value_digits36: "base36_value (digits36 n) = n"
proof (induction n rule: digits36.induct)
  case (1 n)
  show ?case
  proof (cases "n < 36")
    case True
    then show ?thesis
      by (simp add: digits36.simps [of n] base36_value_def digit36_value_digit36)
  next
    case False
    with "1" have "base36_value (digits36 (n div 36)) = n div 36" by simp
    with False show ?thesis
      by (simp add: digits36.simps [of n] base36_value_snoc digit36_value_digit36)
  qed
qed

lemma base36_value_toString36: "0 \<le> i \<Longrightarrow> int (base36_value (toString36 i)) = i"
  by (simp add: toString36_def base36_value_digits36)

lemma toUpperCase_nth:
  "i < length s \<Longrightarrow>
   toUpperCase s ! i = (if 0x61 \<le> s ! i \<and> s ! i \<le> 0x7A then s ! i - 0x20 else s ! i)"
  by (simp add: toUpperCase_def)

lemma lower_hex_letter: "is_lower_hex c \<Longrightarrow> 0x61 \<le> c \<Longrightarrow> c \<le> 0x7A"
  by (auto simp: is_lower_hex_def word_le_nat_alt)

text \<open>
  C9. Every generated complaint identifier matches \<open>COMP-[0-9a-z]+-[0-9A-Z]{8}\<close>, and
  its parts are what the pattern is filled with: after the prefix \<open>COMP-\<close> a base-36
  numeral that denotes the clock reading in milliseconds, a hyphen, and eight
  characters that are the first group of the UUID in upper case (a digit as it is, a
  letter moved from \<open>a-f\<close> to \<open>A-F\<close>). The clock reads a time not before 1970 (so
  \<open>toString(36)\<close> gives no sign) and \<open>uuidv4()\<close> returns a UUID.
\<close>

theorem createComplaintId_format:
  assumes "0 \<le> now" and "is_uuid u"
  shows "matches_id_pattern (createComplaintId now u) \<and>
         (\<exists>ts rnd. createComplaintId now u = js ''COMP-'' @ ts @ js ''-'' @ rnd \<and>
            ts \<noteq> [] \<and> list_all is_lower_alnum ts \<and> int (base36_value ts) = now \<and>
            length rnd = 8 \<and> list_all is_upper_alnum rnd \<and>
            (\<forall>i<8. rnd ! i = (if 0x61 \<le> u ! i then u ! i - 0x20 else u ! i)))"
proof -
  let ?ts = "toString36 now" and ?rnd = "toUpperCase (split_dash_first u)"
  from assms(1) have ts: "?ts \<noteq> []" "list_all is_lower_alnum ?ts"
    by (simp_all add: toString36_nonneg)
  have up: "list_all is_upper_alnum ?rnd"
    using uuid_first_segment(1,2) [OF assms(2)] by (simp add: toUpperCase_hex)
  have len: "length ?rnd = 8"
    using uuid_first_segment(1,3) [OF assms(2)] by (simp add: toUpperCase_def)
  have m: "matches_id_pattern (createComplaintId now u)"
    unfolding createComplaintId_def Let_def
    using len up by (intro matches_id_patternI ts)
  have v: "int (base36_value ?ts) = now"
    using assms(1) by (rule base36_value_toString36)
  have n: "?rnd ! i = (if 0x61 \<le> u ! i then u ! i - 0x20 else u ! i)" if "i < 8" for i
  proof -
    from assms(2) have l: "length u = 36" by (simp add: is_uuid_def)
    have s: "split_dash_first u = take 8 u" by (rule uuid_first_segment(1) [OF assms(2)])
    from uuid_first_segment(2) [OF assms(2)] that l have h: "is_lower_hex (u ! i)"
      by (auto simp: list_all_length)
    from that l have "?rnd ! i
        = (if 0x61 \<le> u ! i \<and> u ! i \<le> 0x7A then u ! i - 0x20 else u ! i)"
      by (simp add: s toUpperCase_nth)
    with h show ?thesis by (auto dest: lower_hex_letter)
  qed
  have "createComplaintId now u = js ''COMP-'' @ ?ts @ js ''-'' @ ?rnd"
    by (simp add: createComplaintId_def Let_def)
  with ts v len up n m show ?thesis by blast
qed

text \<open>The identifier generated at 1700000000000 with the example UUID.\<close>

theorem createComplaintId_format_witness:
  "matches_id_pattern
     (createComplaintId 1700000000000 (js ''3f2a9c1e-7b4d-4e8a-9c0f-1a2b3c4d5e6f'')) \<and>
   (\<exists>ts rnd. createComplaintId 1700000000000 (js ''3f2a9c1e-7b4d-4e8a-9c0f-1a2b3c4d5e6f'')
        = js ''COMP-'' @ ts @ js ''-'' @ rnd \<and>
      int (base36_value ts) = 1700000000000 \<and> length rnd = 8)"
proof -
  have "(0::int) \<le> 1700000000000" by simp
  from createComplaintId_format [OF this example_uuid] show ?thesis by blast
qed

section \<open>The rate limiter\<close>

lemma isRateLimited_in_window:
  "rm ip = Some \<lparr>count = n, first = t0\<rparr> \<Longrightarrow> now - t0 \<le> 60000 \<Longrightarrow>
   isRateLimited ip now rm = (6 < n + 1, rm(ip \<mapsto> \<lparr>count = n + 1, first = t0\<rparr>))"
  by (simp add: isRateLimited_def RATE_LIMIT_WINDOW_MS_def RATE_LIMIT_MAX_def)

lemma isRateLimited_start:
  "rm ip = None \<or> (\<exists>en. rm ip = Some en \<and> 60000 < now - first en) \<Longrightarrow>
   isRateLimited ip now rm = (False, rm(ip \<mapsto> \<lparr>count = 1, first = now\<rparr>))"
proof (cases "rm ip")
  case None
  then show ?thesis
    by (simp add: isRateLimited_def RATE_LIMIT_WINDOW_MS_def RATE_LIMIT_MAX_def)
next
  case (Some en)
  moreover assume "rm ip = None \<or> (\<exists>en. rm ip = Some en \<and> 60000 < now - first en)"
  ultimately have "60000 < now - first en" by simp
  with Some show ?thesis
    by (cases en) (simp add: isRateLimited_def RATE_LIMIT_WINDOW_MS_def)
qed

text \<open>A call to another key leaves this key's window alone.\<close>

lemma isRateLimited_other_key:
  "ip' \<noteq> ip \<Longrightarrow> snd (isRateLimited ip' now rm) ip = rm ip"
  by (simp add: isRateLimited_def Let_def)

subsection \<open>The handler behind its gate\<close>

lemma handler_passed:
  "passes_gate cfg ev \<Longrightarrow>
   handler cfg isEmail e ev st =
     (if fst (isRateLimited (client_ip ev) (now_rate e) (rateMap st))
      then (Returned (too_many cfg),
            st\<lparr>rateMap := snd (isRateLimited (client_ip ev) (now_rate e) (rateMap st))\<rparr>)
      else (case intake cfg isEmail e (body ev) of
              Inl out \<Rightarrow>
                (out, st\<lparr>rateMap := snd (isRateLimited (client_ip ev) (now_rate e) (rateMap st))\<rparr>)
            | Inr d \<Rightarrow>
                store cfg e d
                  (st\<lparr>rateMap := snd (isRateLimited (client_ip ev) (now_rate e) (rateMap st))\<rparr>)))"
  by (auto simp: handler_def passes_gate_def Let_def case_prod_beta)

lemma store_rateMap: "rateMap (snd (store cfg e d st)) = rateMap st"
  by (simp add: store_def Let_def)

lemma handler_rateMap:
  "passes_gate cfg ev \<Longrightarrow>
   rateMap (snd (handler cfg isEmail e ev st)) =
     snd (isRateLimited (client_ip ev) (now_rate e) (rateMap st))"
  by (simp add: handler_passed store_rateMap split: sum.splits)

lemma handler_limited:
  "passes_gate cfg ev \<Longrightarrow> fst (isRateLimited (client_ip ev) (now_rate e) (rateMap st)) \<Longrightarrow>
   fst (handler cfg isEmail e ev st) = Returned (too_many cfg)"
  by (simp add: handler_passed)

lemma intake_400: "intake cfg isEmail e b = Inl (Returned r) \<Longrightarrow> statusCode r = 400"
  by (auto simp: intake_def Let_def error_response_def
      split: option.splits sum.splits if_splits)

lemma store_codes:
  "fst (store cfg e d st) = Returned r \<Longrightarrow> statusCode r = 500 \<or> statusCode r = 201"
  by (auto simp: store_def Let_def error_response_def split: if_splits)

lemma handler_not_limited:
  assumes "passes_gate cfg ev"
    and "\<not> fst (isRateLimited (client_ip ev) (now_rate e) (rateMap st))"
    and "fst (handler cfg isEmail e ev st) = Returned res"
  shows "statusCode res \<noteq> 429"
proof (cases "intake cfg isEmail e (body ev)")
  case (Inl out)
  with assms have "out = Returned res" by (simp add: handler_passed)
  with Inl have "statusCode res = 400" by (simp add: intake_400)
  then show ?thesis by simp
next
  case (Inr d)
  let ?st1 = "st\<lparr>rateMap := snd (isRateLimited (client_ip ev) (now_rate e) (rateMap st))\<rparr>"
  from Inr assms have "fst (store cfg e d ?st1) = Returned res"
    by (simp add: handler_passed)
  then have "statusCode res = 500 \<or> statusCode res = 201" by (rule store_codes)
  then show ?thesis by auto
qed

subsection \<open>Calls within one window\<close>

lemma calls_in_window:
  assumes "rateMap st ip = Some \<lparr>count = n, first = t0\<rparr>"
    and "\<forall>(e, ev)\<in>set cs. passes_gate cfg ev \<and> client_ip ev = ip \<and> now_rate e - t0 \<le> 60000"
    and "i < length cs" and "6 < n + int i + 1"
  shows "fst (calls cfg isEmail cs st) ! i = Returned (too_many cfg)"
  using assms
proof (induction cs arbitrary: st n i)
  case Nil
  then show ?case by simp
next
  case (Cons c cs)
  obtain e ev where c: "c = (e, ev)" by (cases c)
  from Cons.prems(2) c have g: "passes_gate cfg ev" and ip: "client_ip ev = ip"
    and w: "now_rate e - t0 \<le> 60000" by auto
  have step: "isRateLimited ip (now_rate e) (rateMap st) =
      (6 < n + 1, (rateMap st)(ip \<mapsto> \<lparr>count = n + 1, first = t0\<rparr>))"
    using Cons.prems(1) w by (rule isRateLimited_in_window)
  obtain out st1 where h: "handler cfg isEmail e ev st = (out, st1)"
    by (cases "handler cfg isEmail e ev st")
  have rm1: "rateMap st1 ip = Some \<lparr>count = n + 1, first = t0\<rparr>"
    using handler_rateMap [OF g, of isEmail e st] h ip step by simp
  show ?case
  proof (cases i)
    case 0
    with Cons.prems(4) have "6 < n + 1" by simp
    then have "fst (handler cfg isEmail e ev st) = Returned (too_many cfg)"
      using handler_limited [OF g, of e st isEmail] ip step by simp
    with 0 c h show ?thesis by (simp add: case_prod_beta)
  next
    case (Suc j)
    have "fst (calls cfg isEmail cs st1) ! j = Returned (too_many cfg)"
    proof (rule Cons.IH [OF rm1])
      show "\<forall>(e, ev)\<in>set cs. passes_gate cfg ev \<and> client_ip ev = ip \<and> now_rate e - t0 \<le> 60000"
        using Cons.prems(2) by simp
      show "j < length cs" using Cons.prems(3) Suc by simp
      show "6 < n + 1 + int j + 1" using Cons.prems(4) Suc by simp
    qed
    with Suc c h show ?thesis by (simp add: case_prod_beta)
  qed
qed

lemma calls_length: "length (fst (calls cfg isEmail cs st)) = length cs"
  by (induction cs arbitrary: st) (auto simp: case_prod_beta)

text \<open>Up to the ceiling, a call within the window is not answered 429.\<close>

lemma calls_in_window_allowed:
  assumes "rateMap st ip = Some \<lparr>count = n, first = t0\<rparr>"
    and "\<forall>(e, ev)\<in>set cs. passes_gate cfg ev \<and> client_ip ev = ip \<and> now_rate e - t0 \<le> 60000"
    and "i < length cs" and "n + int i + 1 \<le> 6"
    and "fst (calls cfg isEmail cs st) ! i = Returned res"
  shows "statusCode res \<noteq> 429"
  using assms
proof (induction cs arbitrary: st n i)
  case Nil
  then show ?case by simp
next
  case (Cons c cs)
  obtain e ev where c: "c = (e, ev)" by (cases c)
  from Cons.prems(2) c have g: "passes_gate cfg ev" and ip: "client_ip ev = ip"
    and w: "now_rate e - t0 \<le> 60000" by auto
  have step: "isRateLimited ip (now_rate e) (rateMap st) =
      (6 < n + 1, (rateMap st)(ip \<mapsto> \<lparr>count = n + 1, first = t0\<rparr>))"
    using Cons.prems(1) w by (rule isRateLimited_in_window)
  obtain out st1 where h: "handler cfg isEmail e ev st = (out, st1)"
    by (cases "handler cfg isEmail e ev st")
  have rm1: "rateMap st1 ip = Some \<lparr>count = n + 1, first = t0\<rparr>"
    using handler_rateMap [OF g, of isEmail e st] h ip step by simp
  show ?case
  proof (cases i)
    case 0
    with Cons.prems(4) have "\<not> fst (isRateLimited (client_ip ev) (now_rate e) (rateMap st))"
      using ip step by simp
    moreover from 0 c h Cons.prems(5) have "fst (handler cfg isEmail e ev st) = Returned res"
      by (simp add: case_prod_beta)
    ultimately show ?thesis using g by (rule handler_not_limited [rotated])
  next
    case (Suc j)
    show ?thesis
    proof (rule Cons.IH [OF rm1])
      show "\<forall>(e, ev)\<in>set cs. passes_gate cfg ev \<and> client_ip ev = ip \<and> now_rate e - t0 \<le> 60000"
        using Cons.prems(2) by simp
      show "j < length cs" using Cons.prems(3) Suc by simp
      show "n + 1 + int j + 1 \<le> 6" using Cons.prems(4) Suc by simp
      show "fst (calls cfg isEmail cs st1) ! j = Returned res"
        using Cons.prems(5) Suc c h by (simp add: case_prod_beta)
    qed
  qed
qed

subsection \<open>Calls of other keys in between\<close>

lemma handler_not_passed: "\<not> passes_gate cfg ev \<Longrightarrow> snd (handler cfg isEmail e ev st) = st"
  by (auto simp: handler_def passes_gate_def)

text \<open>A call that the limiter does not count for \<open>ip\<close> leaves the window of \<open>ip\<close> alone.\<close>

lemma handler_rateMap_other:
  assumes "\<not> counted cfg ip (e, ev)"
  shows "rateMap (snd (handler cfg isEmail e ev st)) ip = rateMap st ip"
proof (cases "passes_gate cfg ev")
  case True
  with assms have "client_ip ev \<noteq> ip" by (simp add: counted_def)
  with True show ?thesis
    by (simp add: handler_rateMap isRateLimited_other_key)
next
  case False
  then show ?thesis by (simp add: handler_not_passed)
qed

lemma handler_rateMap_counted:
  assumes "counted cfg ip (e, ev)" and "rateMap st ip = Some \<lparr>count = n, first = t0\<rparr>"
    and "now_rate e - t0 \<le> 60000"
  shows "rateMap (snd (handler cfg isEmail e ev st)) ip = Some \<lparr>count = n + 1, first = t0\<rparr>"
proof -
  from assms(1) have g: "passes_gate cfg ev" and ip: "client_ip ev = ip"
    by (simp_all add: counted_def)
  from isRateLimited_in_window [of "rateMap st" ip n t0 "now_rate e", OF assms(2,3)]
    handler_rateMap [OF g, of isEmail e st] ip
  show ?thesis by simp
qed

text \<open>Within the window, the counter of \<open>ip\<close> grows by the number of its counted calls,
  whatever other calls come in between.\<close>

lemma calls_window_count:
  assumes "rateMap st ip = Some \<lparr>count = n, first = t0\<rparr>"
    and "\<forall>c\<in>set cs. counted cfg ip c \<longrightarrow> now_rate (fst c) - t0 \<le> 60000"
  shows "rateMap (snd (calls cfg isEmail cs st)) ip
           = Some \<lparr>count = n + int (length (filter (counted cfg ip) cs)), first = t0\<rparr>"
  using assms
proof (induction cs arbitrary: st n)
  case Nil
  then show ?case by simp
next
  case (Cons c cs)
  obtain e ev where c: "c = (e, ev)" by (cases c)
  let ?st1 = "snd (handler cfg isEmail e ev st)"
  have rest: "\<forall>c\<in>set cs. counted cfg ip c \<longrightarrow> now_rate (fst c) - t0 \<le> 60000"
    using Cons.prems(2) by simp
  have s: "snd (calls cfg isEmail (c # cs) st) = snd (calls cfg isEmail cs ?st1)"
    by (simp add: c case_prod_beta)
  show ?case
  proof (cases "counted cfg ip c")
    case True
    with Cons.prems(2) c have "now_rate e - t0 \<le> 60000" by simp
    with True c Cons.prems(1)
    have "rateMap ?st1 ip = Some \<lparr>count = n + 1, first = t0\<rparr>"
      by (simp add: handler_rateMap_counted)
    from Cons.IH [OF this rest] True show ?thesis by (simp add: s)
  next
    case False
    with c Cons.prems(1) have "rateMap ?st1 ip = Some \<lparr>count = n, first = t0\<rparr>"
      by (simp add: handler_rateMap_other)
    from Cons.IH [OF this rest] False show ?thesis by (simp add: s)
  qed
qed

lemma calls_snoc:
  "calls cfg isEmail (cs @ [(e, ev)]) st =
     (fst (calls cfg isEmail cs st) @ [fst (handler cfg isEmail e ev (snd (calls cfg isEmail cs st)))],
      snd (handler cfg isEmail e ev (snd (calls cfg isEmail cs st))))"
  by (induction cs arbitrary: st) (auto simp: case_prod_beta)

lemma calls_last:
  "last (fst (calls cfg isEmail (cs @ [(e, ev)]) st))
     = fst (handler cfg isEmail e ev (snd (calls cfg isEmail cs st)))"
  by (simp add: calls_snoc)

lemma too_many_429:
  "statusCode (too_many cfg) = 429"
  "resp_body (too_many cfg)
     = Json (JObj [(js ''error'', JStr (js ''Too many submissions. Try again later.''))])"
  by (simp_all add: too_many_def error_response_def)

lemma seventh_call:
  assumes start: "rateMap st ip = None \<or>
      (\<exists>en. rateMap st ip = Some en \<and> 60000 < now_rate e1 - first en)"
    and first: "counted cfg ip (e1, ev1)"
    and five: "length (filter (counted cfg ip) cs) = 5"
    and seventh: "counted cfg ip (e7, ev7)"
    and within: "\<forall>c\<in>set (cs @ [(e7, ev7)]). counted cfg ip c \<longrightarrow>
      now_rate (fst c) - now_rate e1 \<le> 60000"
  shows "last (fst (calls cfg isEmail ((e1, ev1) # cs @ [(e7, ev7)]) st))
           = Returned (too_many cfg)"
proof -
  let ?st1 = "snd (handler cfg isEmail e1 ev1 st)"
  let ?st6 = "snd (calls cfg isEmail cs ?st1)"
  from first have g1: "passes_gate cfg ev1" and ip1: "client_ip ev1 = ip"
    by (simp_all add: counted_def)
  from seventh have g7: "passes_gate cfg ev7" and ip7: "client_ip ev7 = ip"
    by (simp_all add: counted_def)
  have "rateMap ?st1 ip = Some \<lparr>count = 1, first = now_rate e1\<rparr>"
    using handler_rateMap [OF g1, of isEmail e1 st] ip1
      isRateLimited_start [of "rateMap st" ip "now_rate e1", OF start] by simp
  moreover have "\<forall>c\<in>set cs. counted cfg ip c \<longrightarrow> now_rate (fst c) - now_rate e1 \<le> 60000"
    using within by simp
  ultimately have "rateMap ?st6 ip
      = Some \<lparr>count = 1 + int (length (filter (counted cfg ip) cs)), first = now_rate e1\<rparr>"
    by (rule calls_window_count)
  with five have six: "rateMap ?st6 ip = Some \<lparr>count = 6, first = now_rate e1\<rparr>" by simp
  from within seventh have "now_rate e7 - now_rate e1 \<le> 60000" by simp
  with six have "isRateLimited ip (now_rate e7) (rateMap ?st6)
      = (6 < (6::int) + 1, (rateMap ?st6)(ip \<mapsto> \<lparr>count = 6 + 1, first = now_rate e1\<rparr>))"
    by (simp only: isRateLimited_in_window [of "rateMap ?st6" ip 6 "now_rate e1" "now_rate e7"])
  then have "fst (isRateLimited (client_ip ev7) (now_rate e7) (rateMap ?st6))"
    by (simp add: ip7)
  with g7 have "fst (handler cfg isEmail e7 ev7 ?st6) = Returned (too_many cfg)"
    by (rule handler_limited)
  moreover have "last (fst (calls cfg isEmail (((e1, ev1) # cs) @ [(e7, ev7)]) st))
      = fst (handler cfg isEmail e7 ev7 (snd (calls cfg isEmail ((e1, ev1) # cs) st)))"
    by (rule calls_last)
  moreover have "snd (calls cfg isEmail ((e1, ev1) # cs) st) = ?st6"
    by (simp add: case_prod_beta)
  ultimately show ?thesis by simp
qed

lemma window_reset:
  assumes "passes_gate cfg ev" and "rateMap st (client_ip ev) = Some en"
    and "61000 \<le> now_rate e - first en"
  shows "rateMap (snd (handler cfg isEmail e ev st)) (client_ip ev)
           = Some \<lparr>count = 1, first = now_rate e\<rparr>"
    and "\<forall>res. fst (handler cfg isEmail e ev st) = Returned res \<longrightarrow> statusCode res \<noteq> 429"
proof -
  have st: "isRateLimited (client_ip ev) (now_rate e) (rateMap st)
      = (False, (rateMap st)(client_ip ev \<mapsto> \<lparr>count = 1, first = now_rate e\<rparr>))"
    by (rule isRateLimited_start) (use assms(2,3) in auto)
  then show "rateMap (snd (handler cfg isEmail e ev st)) (client_ip ev)
      = Some \<lparr>count = 1, first = now_rate e\<rparr>"
    using handler_rateMap [OF assms(1), of isEmail e st] by simp
  from st have "\<not> fst (isRateLimited (client_ip ev) (now_rate e) (rateMap st))" by simp
  with assms(1)
  show "\<forall>res. fst (handler cfg isEmail e ev st) = Returned res \<longrightarrow> statusCode res \<noteq> 429"
    by (blast dest: handler_not_limited)
qed

subsection \<open>The example calls\<close>

lemma example_gate: "passes_gate example_config (example_event b)"
  by (simp add: passes_gate_def example_config_def example_event_def)

lemma example_ip: "client_ip (example_event b) = js ''203.0.113.7''"
  by (simp add: client_ip_def example_event_def or_else_def)

lemma example_first_call:
  "isRateLimited (js ''203.0.113.7'') t Map.empty
     = (False, [js ''203.0.113.7'' \<mapsto> \<lparr>count = 1, first = t\<rparr>])"
  by (simp add: isRateLimited_def RATE_LIMIT_WINDOW_MS_def RATE_LIMIT_MAX_def)

lemma example_counted:
  "counted example_config (js ''203.0.113.7'') (e, example_event b)"
  by (simp add: counted_def example_gate example_ip)

lemma other_not_counted:
  "\<not> counted example_config (js ''203.0.113.7'') (e, other_event b)"
  by (simp add: counted_def client_ip_def other_event_def or_else_def)

text \<open>
  C2. For one caller key \<open>ip\<close>, counting the calls that get past the method and secret
  checks with that key, and with any calls of other keys in between: when the first
  call starts a window (the key has no entry, or its window has run out) and the
  seventh call comes no later than 60 seconds after it, as the five between them do,
  the seventh call is answered with status 429 and the error "Too many submissions.
  Try again later.". A call 61 seconds or more after the window start sets the
  counter to 1 and the window start to its own time, and is not answered 429.
\<close>

theorem rate_limit_window:
  "((rateMap st ip = None \<or> (\<exists>en. rateMap st ip = Some en \<and> 60000 < now_rate e1 - first en)) \<and>
    counted cfg ip (e1, ev1) \<and> length (filter (counted cfg ip) cs) = 5 \<and>
    counted cfg ip (e7, ev7) \<and>
    (\<forall>c\<in>set (cs @ [(e7, ev7)]). counted cfg ip c \<longrightarrow>
        now_rate (fst c) - now_rate e1 \<le> 60000)
    \<longrightarrow> (\<exists>res. last (fst (calls cfg isEmail ((e1, ev1) # cs @ [(e7, ev7)]) st)) = Returned res \<and>
           statusCode res = 429 \<and>
           resp_body res
             = Json (JObj [(js ''error'', JStr (js ''Too many submissions. Try again later.''))]))) \<and>
   (passes_gate cfg ev' \<and> rateMap st' (client_ip ev') = Some en' \<and>
    61000 \<le> now_rate e' - first en'
    \<longrightarrow> rateMap (snd (handler cfg isEmail e' ev' st')) (client_ip ev')
          = Some \<lparr>count = 1, first = now_rate e'\<rparr> \<and>
        (\<forall>res. fst (handler cfg isEmail e' ev' st') = Returned res \<longrightarrow> statusCode res \<noteq> 429))"
  using seventh_call [of st ip e1 cfg ev1 cs e7 ev7 isEmail] too_many_429 [of cfg]
    window_reset [of cfg ev' st' en' e' isEmail]
  by blast

text \<open>
  Seven calls from one address, ten seconds apart, the seventh exactly 60 seconds
  after the first, with a call from another address among them; and a call 61 seconds
  after the start of a window that has counted seven.
\<close>

theorem rate_limit_window_witness:
  "returned_status (last (fst (calls example_config contains_at
          ((example_env 1700000000000, example_event NoBody) #
           [(example_env 1700000010000, example_event NoBody),
            (example_env 1700000015000, other_event NoBody),
            (example_env 1700000020000, example_event NoBody),
            (example_env 1700000030000, example_event NoBody),
            (example_env 1700000040000, example_event NoBody),
            (example_env 1700000050000, example_event NoBody)] @
           [(example_env 1700000060000, example_event NoBody)])
          empty_state))) = Some 429 \<and>
   rateMap (snd (handler example_config contains_at (example_env 1700000061000)
                   (example_event NoBody)
                   (empty_state\<lparr>rateMap :=
                      [js ''203.0.113.7'' \<mapsto> \<lparr>count = 7, first = 1700000000000\<rparr>]\<rparr>)))
     (js ''203.0.113.7'') = Some \<lparr>count = 1, first = 1700000061000\<rparr> \<and>
   returned_status (fst (handler example_config contains_at (example_env 1700000061000)
                   (example_event NoBody)
                   (empty_state\<lparr>rateMap :=
                      [js ''203.0.113.7'' \<mapsto> \<lparr>count = 7, first = 1700000000000\<rparr>]\<rparr>)))
     \<noteq> Some 429"
proof -
  let ?ip = "js ''203.0.113.7''"
  let ?cs = "[(example_env 1700000010000, example_event NoBody),
              (example_env 1700000015000, other_event NoBody),
              (example_env 1700000020000, example_event NoBody),
              (example_env 1700000030000, example_event NoBody),
              (example_env 1700000040000, example_event NoBody),
              (example_env 1700000050000, example_event NoBody)]"
  let ?c7 = "(example_env 1700000060000, example_event NoBody)"
  let ?st = "empty_state\<lparr>rateMap :=
      [js ''203.0.113.7'' \<mapsto> \<lparr>count = 7, first = 1700000000000\<rparr>]\<rparr>"
  have a: "rateMap empty_state ?ip = None \<or>
      (\<exists>en. rateMap empty_state ?ip = Some en \<and>
         60000 < now_rate (example_env 1700000000000) - first en)"
    by (simp add: empty_state_def)
  have b: "length (filter (counted example_config ?ip) ?cs) = 5"
    by (simp add: example_counted other_not_counted)
  have c: "\<forall>c\<in>set (?cs @ [?c7]). counted example_config ?ip c \<longrightarrow>
      now_rate (fst c) - now_rate (example_env 1700000000000) \<le> 60000"
    by (simp add: example_env_def)
  have d: "rateMap ?st (client_ip (example_event NoBody))
      = Some \<lparr>count = 7, first = 1700000000000\<rparr>"
    by (simp add: example_ip)
  have e: "61000 \<le> now_rate (example_env 1700000061000)
      - first \<lparr>count = 7, first = 1700000000000\<rparr>"
    by (simp add: example_env_def)
  from rate_limit_window [of empty_state ?ip "example_env 1700000000000"
      example_config "example_event NoBody" ?cs "example_env 1700000060000"
      "example_event NoBody" contains_at "example_event NoBody" ?st
      "\<lparr>count = 7, first = 1700000000000\<rparr>" "example_env 1700000061000"]
    a b c d e example_gate [of NoBody] example_ip [of NoBody]
    example_counted [of _ NoBody]
  have s: "\<exists>res. last (fst (calls example_config contains_at
          ((example_env 1700000000000, example_event NoBody) # ?cs @ [?c7]) empty_state))
        = Returned res \<and> statusCode res = 429"
    and r: "rateMap (snd (handler example_config contains_at (example_env 1700000061000)
          (example_event NoBody) ?st)) ?ip
        = Some \<lparr>count = 1, first = now_rate (example_env 1700000061000)\<rparr>"
    and n: "\<forall>res. fst (handler example_config contains_at (example_env 1700000061000)
          (example_event NoBody) ?st) = Returned res \<longrightarrow> statusCode res \<noteq> 429"
    by auto
  from s have "returned_status (last (fst (calls example_config contains_at
          ((example_env 1700000000000, example_event NoBody) # ?cs @ [?c7]) empty_state)))
        = Some 429"
    by (auto simp: returned_status_def)
  moreover from r have "rateMap (snd (handler example_config contains_at
          (example_env 1700000061000) (example_event NoBody) ?st)) ?ip
        = Some \<lparr>count = 1, first = 1700000061000\<rparr>"
    by (simp add: example_env_def)
  moreover from n have "returned_status (fst (handler example_config contains_at
          (example_env 1700000061000) (example_event NoBody) ?st)) \<noteq> Some 429"
    by (auto simp: returned_status_def split: outcome.splits)
  ultimately show ?thesis by simp
qed

section \<open>The submit handler\<close>

subsection \<open>What is stored\<close>

lemma store_accept:
  assumes "store cfg e d st = (Returned res, st')" and "statusCode res = 201"
  shows "coll st' = coll st @ [(js ''_id'', JOid (new_oid e)) # d]"
  using assms by (auto simp: store_def Let_def error_response_def split: if_splits)

lemma handler_accept:
  assumes "handler cfg isEmail e ev st = (Returned res, st')" and "statusCode res = 201"
  shows "\<exists>d. intake cfg isEmail e (body ev) = Inr d \<and>
             coll st' = coll st @ [(js ''_id'', JOid (new_oid e)) # d]"
proof (cases "intake cfg isEmail e (body ev)")
  case (Inl out)
  with assms show ?thesis
    by (auto simp: handler_def Let_def case_prod_beta error_response_def too_many_def
        dest: intake_400 split: if_splits)
next
  case (Inr d)
  with assms show ?thesis
    by (auto simp: handler_def Let_def case_prod_beta error_response_def too_many_def
        dest: store_accept split: if_splits)
qed

lemma complaintDoc_reporter:
  "map_of (complaintDoc cid dep prog title det now rep) (js ''reporter'') = map_option JObj rep"
  by (simp add: complaintDoc_def split: option.splits)

lemma intake_reporter:
  assumes "intake cfg isEmail e b = Inr d" and "payload_of b = Some payload"
  shows "if truthy (own_prop payload (js ''reporter'')) \<and>
            typeof_object (own_prop payload (js ''reporter''))
         then \<exists>fs. build_reporter isEmail (own_prop payload (js ''reporter'')) = Some fs \<and>
                map_of d (js ''reporter'') = Some (JObj fs)
         else map_of d (js ''reporter'') = None"
  using assms
  by (cases "build_reporter isEmail (own_prop payload (js ''reporter''))")
     (auto simp: intake_def Let_def complaintDoc_reporter
       split: sum.splits option.splits if_splits)

lemma build_reporter_empty:
  assumes "build_reporter isEmail r = Some fs"
  shows "fs = [] \<longleftrightarrow>
           sanitizeString (own_prop r (js ''name'')) 100 = [] \<and>
           sanitizeString (own_prop r (js ''email'')) 254 = [] \<and>
           sanitizeString (own_prop r (js ''username'')) 100 = []"
  using assms by (auto simp: build_reporter_def Let_def split: if_splits)

text \<open>The reporter object holds the sub-fields that are non-empty, and nothing else.\<close>

lemma build_reporter_fields:
  assumes "build_reporter isEmail r = Some fs"
  shows "map_of fs (js ''name'') =
           (let s = sanitizeString (own_prop r (js ''name'')) 100
            in if s = [] then None else Some (JStr s))"
    and "map_of fs (js ''email'') =
           (let s = sanitizeString (own_prop r (js ''email'')) 254
            in if s = [] then None else Some (JStr s))"
    and "map_of fs (js ''username'') =
           (let s = sanitizeString (own_prop r (js ''username'')) 100
            in if s = [] then None else Some (JStr s))"
    and "fst ` set fs \<subseteq> {js ''name'', js ''email'', js ''username''}"
  using assms by (auto simp: build_reporter_def Let_def split: if_splits)

subsection \<open>The example calls\<close>

lemma example_handler_passed:
  "handler example_config isEmail (example_env t) (example_event b) empty_state =
     (case intake example_config isEmail (example_env t) b of
        Inl out \<Rightarrow>
          (out, empty_state\<lparr>rateMap := [js ''203.0.113.7'' \<mapsto> \<lparr>count = 1, first = t\<rparr>]\<rparr>)
      | Inr d \<Rightarrow>
          store example_config (example_env t) d
            (empty_state\<lparr>rateMap := [js ''203.0.113.7'' \<mapsto> \<lparr>count = 1, first = t\<rparr>]\<rparr>))"
proof -
  have "isRateLimited (client_ip (example_event b)) (now_rate (example_env t))
      (rateMap empty_state) = (False, [js ''203.0.113.7'' \<mapsto> \<lparr>count = 1, first = t\<rparr>])"
    by (simp add: example_ip example_env_def empty_state_def example_first_call)
  moreover have "body (example_event b) = b" by (simp add: example_event_def)
  ultimately show ?thesis
    by (simp add: handler_passed [OF example_gate] split: sum.splits)
qed

lemma example_not_limited:
  "\<not> fst (isRateLimited (client_ip (example_event b)) (now_rate (example_env t))
      (rateMap empty_state))"
  by (simp add: example_ip example_env_def empty_state_def example_first_call)

lemma example_store:
  "store example_config (example_env t) d (empty_state\<lparr>rateMap := rm\<rparr>) =
     (Returned \<lparr>statusCode = 201, resp_headers = cors_headers example_config,
        resp_body = Json (JObj
          [(js ''success'', JBool True),
           (js ''complaintId'', own_prop (JObj d) (js ''complaintId'')),
           (js ''message'', JStr (js ''Complaint submitted successfully''))])\<rparr>,
      \<lparr>rateMap = rm, cachedClient = True,
       coll = [(js ''_id'', JOid (js ''65f1a2b3c4d5e6f708192a3b'')) # d],
       db_calls = [Connect, InsertOne d]\<rparr>)"
  by (simp add: store_def example_env_def empty_state_def Let_def)

lemma example_intake_blank_name:
  "intake example_config contains_at (example_env t)
     (Decoded (JObj (example_payload @
        [(js ''reporter'', JObj [(js ''name'', JStr (js ''   ''))])])))
   = Inr (complaintDoc (createComplaintId t (js ''3f2a9c1e-7b4d-4e8a-9c0f-1a2b3c4d5e6f''))
       (js ''CS'') (js ''B.Tech'') (js ''Broken AC'')
       (js ''The AC in room 204 has been broken for two weeks.'') t (Some []))"
  by (simp add: intake_def payload_of_def example_payload_def Let_def sanitize_examples
      build_reporter_def example_env_def sanitize_non_string del: sanitizeString.simps)

lemma example_intake_blank_email:
  "intake example_config contains_at (example_env t)
     (Decoded (JObj (example_payload @
        [(js ''reporter'', JObj [(js ''email'', JStr (js ''   ''))])])))
   = Inr (complaintDoc (createComplaintId t (js ''3f2a9c1e-7b4d-4e8a-9c0f-1a2b3c4d5e6f''))
       (js ''CS'') (js ''B.Tech'') (js ''Broken AC'')
       (js ''The AC in room 204 has been broken for two weeks.'') t (Some []))"
  by (simp add: intake_def payload_of_def example_payload_def Let_def sanitize_examples
      build_reporter_def example_env_def sanitize_non_string del: sanitizeString.simps)

lemma example_intake_reporter:
  "intake example_config contains_at (example_env t)
     (Decoded (JObj (example_payload @
        [(js ''reporter'', JObj [(js ''name'', JStr (js ''Ada'')),
                                (js ''email'', JStr (js '' ada@example.org ''))])])))
   = Inr (complaintDoc (createComplaintId t (js ''3f2a9c1e-7b4d-4e8a-9c0f-1a2b3c4d5e6f''))
       (js ''CS'') (js ''B.Tech'') (js ''Broken AC'')
       (js ''The AC in room 204 has been broken for two weeks.'') t
       (Some [(js ''name'', JStr (js ''Ada'')), (js ''email'', JStr (js ''ada@example.org''))]))"
proof -
  have "contains_at (js ''ada@example.org'')" by (simp add: contains_at_def js_def)
  then show ?thesis
    by (simp add: intake_def payload_of_def example_payload_def Let_def sanitize_examples
        build_reporter_def example_env_def sanitize_non_string del: sanitizeString.simps)
qed

lemma example_intake_short_title:
  "intake example_config contains_at (example_env t)
     (Decoded (JObj
        [(js ''department'', JStr (js ''CS'')),
         (js ''program'', JStr (js ''B.Tech'')),
         (js ''title'', JStr (js ''Bad'')),
         (js ''details'', JStr (js ''The AC in room 204 has been broken for two weeks.''))]))
   = Inl (Returned (error_response example_config 400 ''Complaint title too short''))"
  by (simp add: intake_def payload_of_def Let_def sanitize_examples
      sanitize_non_string del: sanitizeString.simps)

lemma example_intake:
  "intake example_config contains_at (example_env t) (Decoded (JObj example_payload))
   = Inr (complaintDoc (createComplaintId t (js ''3f2a9c1e-7b4d-4e8a-9c0f-1a2b3c4d5e6f''))
       (js ''CS'') (js ''B.Tech'') (js ''Broken AC'')
       (js ''The AC in room 204 has been broken for two weeks.'') t None)"
  by (simp add: intake_def payload_of_def example_payload_def Let_def sanitize_examples
      example_env_def sanitize_non_string del: sanitizeString.simps)

text \<open>
  The example payload with no reporter is accepted; the record stored is pending, has
  a generated identifier and no reporter key.
\<close>

lemma example_submission:
  "returned_status (fst (handler example_config contains_at (example_env 1700000000000)
      (example_event (Decoded (JObj example_payload))) empty_state)) = Some 201"
  "coll (snd (handler example_config contains_at (example_env 1700000000000)
      (example_event (Decoded (JObj example_payload))) empty_state)) = example_complaints"
  "map_of (hd example_complaints) (js ''status'') = Some (JStr (js ''pending''))"
  "map_of (hd example_complaints) (js ''reporter'') = None"
  by (simp_all add: example_handler_passed example_intake example_store returned_status_def
      example_complaints_def createComplaintId_example complaintDoc_reporter)
     (simp add: complaintDoc_def)

lemma error_response_inject [simp]:
  "error_response cfg c m = error_response cfg c' m' \<longleftrightarrow> c = c' \<and> m = m'"
  by (auto simp: error_response_def)

text \<open>
  C1. The claim: the reporter object is stored only if one of its sub-fields is
  non-empty after sanitization, and a reporter whose sub-fields all sanitize to empty
  gives an accepted record with no reporter key. The code stores the object whenever
  the payload carries one (\<open>reporter ? { reporter } : {}\<close> tests the object, and an
  empty object is truthy). What holds for an accepted call: the stored record has
  a reporter key exactly when \<open>payload.reporter\<close> is an object; the object holds the
  sub-fields that are non-empty after sanitization, and is empty exactly when
  all three sanitize to empty.
\<close>

theorem reporter_stored_iff_object:
  assumes "handler cfg isEmail e ev st = (Returned res, st')" and "statusCode res = 201"
    and "payload_of (body ev) = Some payload"
  shows "\<exists>d. coll st' = coll st @ [d] \<and>
           (let r = own_prop payload (js ''reporter'')
            in if truthy r \<and> typeof_object r
               then \<exists>fs. map_of d (js ''reporter'') = Some (JObj fs) \<and>
                      build_reporter isEmail r = Some fs \<and>
                      (fs = [] \<longleftrightarrow>
                         sanitizeString (own_prop r (js ''name'')) 100 = [] \<and>
                         sanitizeString (own_prop r (js ''email'')) 254 = [] \<and>
                         sanitizeString (own_prop r (js ''username'')) 100 = [])
               else map_of d (js ''reporter'') = None)"
proof -
  from handler_accept [OF assms(1,2)] obtain d0 where
    i: "intake cfg isEmail e (body ev) = Inr d0" and
    c: "coll st' = coll st @ [(js ''_id'', JOid (new_oid e)) # d0]" by blast
  show ?thesis
  proof (intro exI conjI)
    show "coll st' = coll st @ [(js ''_id'', JOid (new_oid e)) # d0]" by (rule c)
    show "let r = own_prop payload (js ''reporter'')
            in if truthy r \<and> typeof_object r
               then \<exists>fs. map_of ((js ''_id'', JOid (new_oid e)) # d0) (js ''reporter'')
                            = Some (JObj fs) \<and>
                      build_reporter isEmail r = Some fs \<and>
                      (fs = [] \<longleftrightarrow>
                         sanitizeString (own_prop r (js ''name'')) 100 = [] \<and>
                         sanitizeString (own_prop r (js ''email'')) 254 = [] \<and>
                         sanitizeString (own_prop r (js ''username'')) 100 = [])
               else map_of ((js ''_id'', JOid (new_oid e)) # d0) (js ''reporter'') = None"
      using intake_reporter [OF i assms(3)]
        build_reporter_empty [of isEmail "own_prop payload (js ''reporter'')"]
      unfolding Let_def by auto
  qed
qed

text \<open>A reporter with a name and an e-mail: both are stored, trimmed.\<close>

theorem reporter_stored_iff_object_witness:
  "\<exists>d fs. coll (snd (handler example_config contains_at (example_env 1700000000000)
        (example_event (Decoded (JObj (example_payload @
           [(js ''reporter'', JObj [(js ''name'', JStr (js ''Ada'')),
                                   (js ''email'', JStr (js '' ada@example.org ''))])]))))
        empty_state)) = [d] \<and>
     map_of d (js ''reporter'') = Some (JObj fs) \<and>
     fs = [(js ''name'', JStr (js ''Ada'')), (js ''email'', JStr (js ''ada@example.org''))]"
proof -
  let ?r = "JObj [(js ''name'', JStr (js ''Ada'')), (js ''email'', JStr (js '' ada@example.org ''))]"
  let ?p = "JObj (example_payload @ [(js ''reporter'', ?r)])"
  let ?ev = "example_event (Decoded ?p)"
  let ?h = "handler example_config contains_at (example_env 1700000000000) ?ev empty_state"
  obtain res st' where h: "?h = (Returned res, st')" and s: "statusCode res = 201"
    by (simp add: example_handler_passed example_intake_reporter example_store)
  have p: "payload_of (body ?ev) = Some ?p"
    by (simp add: payload_of_def example_event_def)
  have r: "own_prop ?p (js ''reporter'') = ?r" by (simp add: example_payload_def)
  have b: "build_reporter contains_at ?r
      = Some [(js ''name'', JStr (js ''Ada'')), (js ''email'', JStr (js ''ada@example.org''))]"
    by (simp add: build_reporter_def Let_def sanitize_examples sanitize_non_string
        contains_at_def js_def [of "''ada@example.org''"] del: sanitizeString.simps)
  have e: "coll empty_state = []" by (simp add: empty_state_def)
  from reporter_stored_iff_object [OF h s p] show ?thesis
    unfolding Let_def r b h e by auto
qed

text \<open>
  A reporter whose only sub-field is blank: the call is accepted and the stored record
  has the key \<open>reporter\<close>, bound to the empty object.
\<close>

theorem empty_reporter_is_stored:
  "returned_status (fst (handler example_config contains_at (example_env 1700000000000)
      (example_event (Decoded (JObj (example_payload @
         [(js ''reporter'', JObj [(js ''name'', JStr (js ''   ''))])]))))
      empty_state)) = Some 201 \<and>
   map_of (last (coll (snd (handler example_config contains_at (example_env 1700000000000)
      (example_event (Decoded (JObj (example_payload @
         [(js ''reporter'', JObj [(js ''name'', JStr (js ''   ''))])]))))
      empty_state)))) (js ''reporter'') = Some (JObj [])"
  by (simp add: example_handler_passed example_intake_blank_name example_store
      returned_status_def complaintDoc_reporter)

text \<open>
  C7. A call that is answered 401 (Unauthorized), 429 (RateLimited) or 400
  (InvalidPayload, InvalidEmail, MissingFields, TooShort) has made no call to the
  database: no connection was opened, nothing was inserted, and the stored collection
  is as it was.
\<close>

theorem rejection_leaves_store:
  assumes "handler cfg isEmail e ev st = (Returned res, st')"
    and "statusCode res \<in> {401, 429, 400}"
  shows "coll st' = coll st \<and> db_calls st' = db_calls st \<and> cachedClient st' = cachedClient st"
proof (cases "intake cfg isEmail e (body ev)")
  case (Inl out)
  with assms show ?thesis
    by (auto simp: handler_def Let_def case_prod_beta split: if_splits)
next
  case (Inr d)
  let ?st1 = "st\<lparr>rateMap := snd (isRateLimited (client_ip ev) (now_rate e) (rateMap st))\<rparr>"
  show ?thesis
  proof (cases "store cfg e d ?st1 = (Returned res, st')")
    case True
    then have "fst (store cfg e d ?st1) = Returned res" by simp
    then have "statusCode res = 500 \<or> statusCode res = 201" by (rule store_codes)
    with assms(2) show ?thesis by auto
  next
    case False
    with Inr assms show ?thesis
      by (auto simp: handler_def Let_def case_prod_beta split: if_splits)
  qed
qed

text \<open>The title \<open>"Bad"\<close> is answered 400 and the empty collection stays empty.\<close>

theorem rejection_leaves_store_witness:
  "fst (handler example_config contains_at (example_env 1700000000000)
      (example_event (Decoded (JObj
        [(js ''department'', JStr (js ''CS'')),
         (js ''program'', JStr (js ''B.Tech'')),
         (js ''title'', JStr (js ''Bad'')),
         (js ''details'', JStr (js ''The AC in room 204 has been broken for two weeks.''))])))
      empty_state)
     = Returned (error_response example_config 400 ''Complaint title too short'') \<and>
   coll (snd (handler example_config contains_at (example_env 1700000000000)
      (example_event (Decoded (JObj
        [(js ''department'', JStr (js ''CS'')),
         (js ''program'', JStr (js ''B.Tech'')),
         (js ''title'', JStr (js ''Bad'')),
         (js ''details'', JStr (js ''The AC in room 204 has been broken for two weeks.''))])))
      empty_state)) = [] \<and>
   db_calls (snd (handler example_config contains_at (example_env 1700000000000)
      (example_event (Decoded (JObj
        [(js ''department'', JStr (js ''CS'')),
         (js ''program'', JStr (js ''B.Tech'')),
         (js ''title'', JStr (js ''Bad'')),
         (js ''details'', JStr (js ''The AC in room 204 has been broken for two weeks.''))])))
      empty_state)) = []"
proof -
  let ?h = "handler example_config contains_at (example_env 1700000000000)
      (example_event (Decoded (JObj
        [(js ''department'', JStr (js ''CS'')),
         (js ''program'', JStr (js ''B.Tech'')),
         (js ''title'', JStr (js ''Bad'')),
         (js ''details'', JStr (js ''The AC in room 204 has been broken for two weeks.''))])))
      empty_state"
  have f: "fst ?h = Returned (error_response example_config 400 ''Complaint title too short'')"
    by (simp add: example_handler_passed example_intake_short_title)
  then have h: "?h = (Returned (error_response example_config 400 ''Complaint title too short''),
      snd ?h)"
    by (simp add: prod_eq_iff)
  have "statusCode (error_response example_config 400 ''Complaint title too short'')
      \<in> {401, 429, 400}"
    by (simp add: error_response_def)
  with rejection_leaves_store [OF h] f show ?thesis
    by (simp add: empty_state_def)
qed

text \<open>
  C4. The claim: a payload whose \<open>reporter.email\<close> fails e-mail validation is answered
  400 "Invalid reporter email", whatever the other fields. The code validates the
  sanitized e-mail, and only when it is non-empty. What holds, for a call that has
  passed the method, secret and rate checks and whose body decodes to a value other
  than \<open>null\<close>: when \<open>payload.reporter\<close> is an object and its sanitized e-mail is
  non-empty and fails validation, the answer is 400 "Invalid reporter email", whatever
  the other fields (the check comes before the required-field check).
\<close>

theorem invalid_email_rejected:
  assumes "passes_gate cfg ev"
    and "\<not> fst (isRateLimited (client_ip ev) (now_rate e) (rateMap st))"
    and "payload_of (body ev) = Some payload" and "payload \<noteq> JNull" and "payload \<noteq> JUndefined"
    and "truthy (own_prop payload (js ''reporter''))"
    and "typeof_object (own_prop payload (js ''reporter''))"
    and "sanitizeString (own_prop (own_prop payload (js ''reporter'')) (js ''email'')) 254 \<noteq> []"
    and "\<not> isEmail (sanitizeString (own_prop (own_prop payload (js ''reporter'')) (js ''email'')) 254)"
  shows "fst (handler cfg isEmail e ev st)
           = Returned (error_response cfg 400 ''Invalid reporter email'')"
proof -
  from assms(4,5) obtain dep where "get_prop payload (js ''department'') = Inr dep"
    by (cases payload) simp_all
  with assms(3,6-9) have "intake cfg isEmail e (body ev)
      = Inl (Returned (error_response cfg 400 ''Invalid reporter email''))"
    by (simp add: intake_def Let_def build_reporter_def)
  with assms(1,2) show ?thesis by (simp add: handler_passed)
qed

text \<open>The e-mail \<open>"not-an-email"\<close> in a payload with no other field.\<close>

theorem invalid_email_rejected_witness:
  "fst (handler example_config contains_at (example_env 1700000000000)
      (example_event (Decoded (JObj
         [(js ''reporter'', JObj [(js ''email'', JStr (js ''not-an-email''))])])))
      empty_state)
   = Returned (error_response example_config 400 ''Invalid reporter email'')"
proof -
  let ?p = "JObj [(js ''reporter'', JObj [(js ''email'', JStr (js ''not-an-email''))])]"
  have p: "payload_of (body (example_event (Decoded ?p))) = Some ?p"
    by (simp add: payload_of_def example_event_def)
  have n: "\<not> contains_at (js ''not-an-email'')"
    by (simp add: contains_at_def js_def)
  show ?thesis
    by (rule invalid_email_rejected [OF example_gate example_not_limited p])
       (simp_all add: sanitize_examples n del: sanitizeString.simps)
qed

text \<open>
  A blank e-mail fails validation, and the call is accepted: the blank is sanitized
  to the empty string, which is not validated.
\<close>

theorem blank_email_accepted:
  "\<not> contains_at (js ''   '') \<and>
   returned_status (fst (handler example_config contains_at (example_env 1700000000000)
      (example_event (Decoded (JObj (example_payload @
         [(js ''reporter'', JObj [(js ''email'', JStr (js ''   ''))])]))))
      empty_state)) = Some 201"
proof -
  have "\<not> contains_at (js ''   '')" by (simp add: contains_at_def js_def)
  moreover have "returned_status (fst (handler example_config contains_at
      (example_env 1700000000000)
      (example_event (Decoded (JObj (example_payload @
         [(js ''reporter'', JObj [(js ''email'', JStr (js ''   ''))])]))))
      empty_state)) = Some 201"
    by (simp add: example_handler_passed example_intake_blank_email example_store
        returned_status_def)
  ultimately show ?thesis by blast
qed

text \<open>
  C5. The claim: every body that does not decode to an object, a bare number or string
  included, is answered 400 "Invalid JSON". The code answers so only when
  \<open>JSON.parse\<close> throws, and it parses \<open>'{}'\<close> in place of an absent or empty body.
  What holds, for a call that has passed the method, secret and rate checks: a
  non-empty body that \<open>JSON.parse\<close> rejects is answered 400 "Invalid JSON"; an absent
  or empty body, and a body that is a JSON number, string, boolean or array, is
  answered 400 "Missing required fields".
\<close>

theorem body_rejections:
  assumes "passes_gate cfg ev"
    and "\<not> fst (isRateLimited (client_ip ev) (now_rate e) (rateMap st))"
  shows "(body ev = Malformed \<longrightarrow>
            fst (handler cfg isEmail e ev st)
              = Returned (error_response cfg 400 ''Invalid JSON'')) \<and>
         (body ev = NoBody \<longrightarrow>
            fst (handler cfg isEmail e ev st)
              = Returned (error_response cfg 400 ''Missing required fields'')) \<and>
         (\<forall>v. body ev = Decoded v \<and> bare_value v \<longrightarrow>
            fst (handler cfg isEmail e ev st)
              = Returned (error_response cfg 400 ''Missing required fields''))"
proof (intro conjI allI impI)
  assume "body ev = Malformed"
  then have "intake cfg isEmail e (body ev)
      = Inl (Returned (error_response cfg 400 ''Invalid JSON''))"
    by (simp add: intake_def payload_of_def)
  with assms show "fst (handler cfg isEmail e ev st)
      = Returned (error_response cfg 400 ''Invalid JSON'')"
    by (simp add: handler_passed)
next
  assume "body ev = NoBody"
  then have "intake cfg isEmail e (body ev)
      = Inl (Returned (error_response cfg 400 ''Missing required fields''))"
    by (simp add: intake_def payload_of_def Let_def)
  with assms show "fst (handler cfg isEmail e ev st)
      = Returned (error_response cfg 400 ''Missing required fields'')"
    by (simp add: handler_passed)
next
  fix v assume v: "body ev = Decoded v \<and> bare_value v"
  then have "intake cfg isEmail e (body ev)
      = Inl (Returned (error_response cfg 400 ''Missing required fields''))"
    by (cases v) (simp_all add: intake_def payload_of_def Let_def)
  with assms show "fst (handler cfg isEmail e ev st)
      = Returned (error_response cfg 400 ''Missing required fields'')"
    by (simp add: handler_passed)
qed

text \<open>A body that is no JSON, an empty body, and the body \<open>"hello"\<close>.\<close>

theorem body_rejections_witness:
  "fst (handler example_config contains_at (example_env 1700000000000)
      (example_event Malformed) empty_state)
     = Returned (error_response example_config 400 ''Invalid JSON'') \<and>
   fst (handler example_config contains_at (example_env 1700000000000)
      (example_event NoBody) empty_state)
     = Returned (error_response example_config 400 ''Missing required fields'') \<and>
   fst (handler example_config contains_at (example_env 1700000000000)
      (example_event (Decoded (JStr (js ''hello'')))) empty_state)
     = Returned (error_response example_config 400 ''Missing required fields'')"
proof -
  have "body (example_event Malformed) = Malformed"
    and "body (example_event NoBody) = NoBody"
    and "body (example_event (Decoded (JStr (js ''hello'')))) = Decoded (JStr (js ''hello''))"
    and "bare_value (JStr (js ''hello''))"
    by (simp_all add: example_event_def)
  with body_rejections [of example_config "example_event Malformed"
      "example_env 1700000000000" empty_state contains_at]
    body_rejections [of example_config "example_event NoBody"
      "example_env 1700000000000" empty_state contains_at]
    body_rejections [of example_config "example_event (Decoded (JStr (js ''hello'')))"
      "example_env 1700000000000" empty_state contains_at]
    example_gate example_not_limited
  show ?thesis by blast
qed

text \<open>
  The body \<open>42\<close> is valid JSON and no object: the answer is "Missing required fields",
  not "Invalid JSON". So is the answer to an empty body, which is no JSON at all. The
  body \<open>null\<close> is answered by no response: reading \<open>payload.department\<close> throws outside
  every \<open>try\<close>.
\<close>

theorem bare_number_not_invalid_json:
  "fst (handler example_config contains_at (example_env 1700000000000)
      (example_event (Decoded (JNum 42))) empty_state)
     = Returned (error_response example_config 400 ''Missing required fields'') \<and>
   fst (handler example_config contains_at (example_env 1700000000000)
      (example_event NoBody) empty_state)
     = Returned (error_response example_config 400 ''Missing required fields'') \<and>
   error_response example_config 400 ''Missing required fields''
     \<noteq> error_response example_config 400 ''Invalid JSON'' \<and>
   fst (handler example_config contains_at (example_env 1700000000000)
      (example_event (Decoded JNull)) empty_state) = Threw TypeError"
  by (simp add: example_handler_passed intake_def payload_of_def Let_def)

section \<open>The status update and the fetch\<close>

subsection \<open>updateOne\<close>

lemma set_status_map_of: "map_of (set_fields [(k, v)] d) = (map_of d)(k \<mapsto> v)"
  by (simp add: set_fields_def update_conv')

lemma has_id_set_status: "has_id oid (set_fields [(js ''status'', v)] d) = has_id oid d"
  by (simp add: has_id_def set_status_map_of)

lemma updateOne_length: "length (updateOne flt sets ds) = length ds"
  by (induction ds) simp_all

text \<open>At most one document changes, and it changes by the fields set.\<close>

lemma updateOne_shape:
  "updateOne flt sets ds = ds \<or>
   (\<exists>i<length ds. updateOne flt sets ds = ds[i := set_fields sets (ds ! i)])"
proof (induction ds)
  case Nil
  then show ?case by simp
next
  case (Cons d ds)
  show ?case
  proof (cases "flt d")
    case True
    then have "updateOne flt sets (d # ds) = (d # ds)[0 := set_fields sets ((d # ds) ! 0)]"
      by simp
    then show ?thesis by blast
  next
    case False
    from Cons.IH show ?thesis
    proof
      assume "updateOne flt sets ds = ds"
      with False show ?thesis by simp
    next
      assume "\<exists>i<length ds. updateOne flt sets ds = ds[i := set_fields sets (ds ! i)]"
      then obtain i where "i < length ds"
        "updateOne flt sets ds = ds[i := set_fields sets (ds ! i)]"
        by blast
      with False have "Suc i < length (d # ds)"
        "updateOne flt sets (d # ds) = (d # ds)[Suc i := set_fields sets ((d # ds) ! Suc i)]"
        by simp_all
      then show ?thesis by blast
    qed
  qed
qed

lemma updateOne_frame:
  assumes "i < length ds" and "k' \<noteq> k"
  shows "map_of (updateOne flt [(k, v)] ds ! i) k' = map_of (ds ! i) k'"
proof -
  from updateOne_shape [of flt "[(k, v)]" ds] show ?thesis
  proof
    assume "updateOne flt [(k, v)] ds = ds"
    then show ?thesis by simp
  next
    assume "\<exists>j<length ds. updateOne flt [(k, v)] ds = ds[j := set_fields [(k, v)] (ds ! j)]"
    then obtain j where j: "j < length ds"
      "updateOne flt [(k, v)] ds = ds[j := set_fields [(k, v)] (ds ! j)]" by blast
    show ?thesis
    proof (cases "i = j")
      case True
      with j assms show ?thesis by (simp add: set_status_map_of)
    next
      case False
      with j show ?thesis by simp
    qed
  qed
qed

lemma updateOne_matched:
  assumes "findOne flt ds = Some d" and "\<And>x. flt (set_fields sets x) = flt x"
  shows "findOne flt (updateOne flt sets ds) = Some (set_fields sets d)"
  using assms(1) unfolding findOne_def
  by (induction ds) (auto simp: assms(2) split: if_splits)

subsection \<open>The two update handlers\<close>

lemma action_status_cases:
  "action_status a = (if a = JStr (js ''approve'') then JStr (js ''approved'')
                      else if a = JStr (js ''reject'') then JStr (js ''rejected'') else a)"
  by (simp add: action_status_def Let_def)

lemma updateComplaint_snd:
  "snd (updateComplaint newObjectId e b ds) = ds \<or>
   (\<exists>oid v. snd (updateComplaint newObjectId e b ds)
      = updateOne (has_id oid) [(js ''status'', v)] ds)"
  by (auto simp: updateComplaint_def Let_def split: sum.splits)

lemma updateComplaint_status_snd:
  "snd (updateComplaint_status newObjectId e b ds) = ds \<or>
   (\<exists>oid v. snd (updateComplaint_status newObjectId e b ds)
      = updateOne (has_id oid) [(js ''status'', v)] ds)"
  by (auto simp: updateComplaint_status_def Let_def split: sum.splits)

lemma update_shape:
  assumes "ds' = ds \<or> (\<exists>oid v. ds' = updateOne (has_id oid) [(js ''status'', v)] ds)"
  shows "length ds' = length ds \<and>
         (\<forall>i k. i < length ds \<and> k \<noteq> js ''status'' \<longrightarrow> map_of (ds' ! i) k = map_of (ds ! i) k) \<and>
         (ds' = ds \<or>
          (\<exists>i v. i < length ds \<and> ds' = ds[i := AList.update (js ''status'') v (ds ! i)]))"
  using assms
proof
  assume "ds' = ds"
  then show ?thesis by simp
next
  assume "\<exists>oid v. ds' = updateOne (has_id oid) [(js ''status'', v)] ds"
  then obtain oid v where d: "ds' = updateOne (has_id oid) [(js ''status'', v)] ds" by blast
  have "length ds' = length ds" by (simp add: d updateOne_length)
  moreover have "\<forall>i k. i < length ds \<and> k \<noteq> js ''status'' \<longrightarrow>
      map_of (ds' ! i) k = map_of (ds ! i) k"
    by (simp add: d updateOne_frame)
  moreover have "ds' = ds \<or>
      (\<exists>i v. i < length ds \<and> ds' = ds[i := AList.update (js ''status'') v (ds ! i)])"
    using updateOne_shape [of "has_id oid" "[(js ''status'', v)]" ds]
    unfolding d by (auto simp: set_fields_def)
  ultimately show ?thesis by blast
qed

lemma example_hex_id:
  "hexObjectId (JStr (js ''65f1a2b3c4d5e6f708192a3b'')) = Inr (js ''65f1a2b3c4d5e6f708192a3b'')"
  by (simp add: hexObjectId_def js_def is_hex_def)

lemma example_update:
  "updateComplaint hexObjectId db_up (update_request action) ds =
     (\<lparr>statusCode = 200, resp_headers = [],
       resp_body = ComplaintMessage (action_status (JStr (js action)))\<rparr>,
      updateOne (has_id (js ''65f1a2b3c4d5e6f708192a3b''))
        [(js ''status'', action_status (JStr (js action)))] ds)"
  by (simp add: updateComplaint_def update_request_def parse_body_def db_up_def Let_def
      example_hex_id to_bson_def action_status_cases)

lemma example_complaints_status:
  "updateOne (has_id (js ''65f1a2b3c4d5e6f708192a3b'')) [(js ''status'', v)] example_complaints
     = [set_fields [(js ''status'', v)] (hd example_complaints)]"
  by (simp add: example_complaints_def has_id_def)

lemma example_has_id: "has_id (js ''65f1a2b3c4d5e6f708192a3b'') (hd example_complaints)"
  by (simp add: example_complaints_def has_id_def)

text \<open>
  C6. The claim: a status changes only from pending to approved or from pending to
  rejected; nothing moves a complaint out of approved or rejected, and no status
  outside pending, approved, rejected is ever set. The update handlers read neither
  the current status nor a list of statuses. What holds for an update that reaches the
  database and matches a complaint: with an \<open>action\<close>, the complaint's status becomes
  approved for "approve", rejected for "reject", and the action's value itself
  otherwise, whatever the status was; the handler that takes a \<open>status\<close> stores that
  value as it is.
\<close>

theorem update_sets_status:
  assumes "parse_body b = Inr parsed" and "get_prop parsed (js ''id'') = Inr idv"
    and "newObjectId idv = Inr oid" and "db_connect_ok e" and "db_query_ok e"
    and "findOne (has_id oid) ds = Some d"
  shows "(\<exists>d'. findOne (has_id oid) (snd (updateComplaint newObjectId e b ds)) = Some d' \<and>
            map_of d' (js ''status'') =
              Some (let a = own_prop parsed (js ''action'')
                    in if a = JStr (js ''approve'') then JStr (js ''approved'')
                       else if a = JStr (js ''reject'') then JStr (js ''rejected'')
                       else to_bson a)) \<and>
         (\<exists>d'. findOne (has_id oid) (snd (updateComplaint_status newObjectId e b ds)) = Some d' \<and>
            map_of d' (js ''status'') = Some (to_bson (own_prop parsed (js ''status''))))"
proof -
  have m: "findOne (has_id oid) (updateOne (has_id oid) [(js ''status'', v)] ds)
      = Some (set_fields [(js ''status'', v)] d)" for v
    using assms(6) by (rule updateOne_matched) (rule has_id_set_status)
  have 1: "snd (updateComplaint newObjectId e b ds)
      = updateOne (has_id oid)
          [(js ''status'', to_bson (action_status (own_prop parsed (js ''action''))))] ds"
    using assms(1-5) by (simp add: updateComplaint_def Let_def)
  have 2: "snd (updateComplaint_status newObjectId e b ds)
      = updateOne (has_id oid) [(js ''status'', to_bson (own_prop parsed (js ''status'')))] ds"
    using assms(1-5) by (simp add: updateComplaint_status_def Let_def)
  have 3: "to_bson (action_status a) =
      (if a = JStr (js ''approve'') then JStr (js ''approved'')
       else if a = JStr (js ''reject'') then JStr (js ''rejected'') else to_bson a)" for a
    by (simp add: action_status_cases to_bson_def)
  show ?thesis
    unfolding 1 2 m Let_def by (simp add: set_status_map_of 3)
qed

text \<open>The pending complaint of the example, approved.\<close>

theorem update_sets_status_witness:
  "\<exists>d'. findOne (has_id (js ''65f1a2b3c4d5e6f708192a3b''))
           (snd (updateComplaint hexObjectId db_up (update_request ''approve'')
                   example_complaints)) = Some d' \<and>
         map_of d' (js ''status'') = Some (JStr (js ''approved''))"
proof -
  let ?parsed = "JObj [(js ''id'', JStr (js ''65f1a2b3c4d5e6f708192a3b'')),
                       (js ''action'', JStr (js ''approve''))]"
  have "parse_body (update_request ''approve'') = Inr ?parsed"
    by (simp add: parse_body_def update_request_def)
  moreover have "get_prop ?parsed (js ''id'') = Inr (JStr (js ''65f1a2b3c4d5e6f708192a3b''))"
    by simp
  moreover note example_hex_id
  moreover have "db_connect_ok db_up" and "db_query_ok db_up" by (simp_all add: db_up_def)
  moreover have "findOne (has_id (js ''65f1a2b3c4d5e6f708192a3b'')) example_complaints
      = Some (hd example_complaints)"
    by (simp add: findOne_def example_complaints_def has_id_def)
  ultimately have "(\<exists>d'. findOne (has_id (js ''65f1a2b3c4d5e6f708192a3b''))
          (snd (updateComplaint hexObjectId db_up (update_request ''approve'')
                  example_complaints)) = Some d' \<and>
        map_of d' (js ''status'') =
          Some (let a = own_prop ?parsed (js ''action'')
                in if a = JStr (js ''approve'') then JStr (js ''approved'')
                   else if a = JStr (js ''reject'') then JStr (js ''rejected'')
                   else to_bson a))"
    using update_sets_status [of "update_request ''approve''" ?parsed
        "JStr (js ''65f1a2b3c4d5e6f708192a3b'')" hexObjectId "js ''65f1a2b3c4d5e6f708192a3b''"
        db_up example_complaints "hd example_complaints"]
    by blast
  then show ?thesis by (simp add: Let_def)
qed

text \<open>
  The pending complaint of the example is approved and then rejected: it leaves
  approved. The action "archive" sets a status that is none of the three.
\<close>

theorem status_leaves_approved:
  "map_of (hd (snd (updateComplaint hexObjectId db_up (update_request ''approve'')
       example_complaints))) (js ''status'') = Some (JStr (js ''approved'')) \<and>
   map_of (hd (snd (updateComplaint hexObjectId db_up (update_request ''reject'')
       (snd (updateComplaint hexObjectId db_up (update_request ''approve'')
          example_complaints))))) (js ''status'') = Some (JStr (js ''rejected'')) \<and>
   map_of (hd (snd (updateComplaint hexObjectId db_up (update_request ''archive'')
       example_complaints))) (js ''status'') = Some (JStr (js ''archive''))"
  by (simp add: example_update example_complaints_status has_id_set_status example_has_id
      set_status_map_of action_status_cases)

lemma deleteOne_shape:
  "deleteOne flt ds = ds \<or> (\<exists>i<length ds. deleteOne flt ds = take i ds @ drop (Suc i) ds)"
proof (induction ds)
  case Nil
  then show ?case by simp
next
  case (Cons d ds)
  show ?case
  proof (cases "flt d")
    case True
    then have "deleteOne flt (d # ds) = take 0 (d # ds) @ drop (Suc 0) (d # ds)" by simp
    then show ?thesis by blast
  next
    case False
    from Cons.IH show ?thesis
    proof
      assume "deleteOne flt ds = ds"
      with False show ?thesis by simp
    next
      assume "\<exists>i<length ds. deleteOne flt ds = take i ds @ drop (Suc i) ds"
      then obtain i where "i < length ds" "deleteOne flt ds = take i ds @ drop (Suc i) ds"
        by blast
      with False have "Suc i < length (d # ds)"
        "deleteOne flt (d # ds) = take (Suc i) (d # ds) @ drop (Suc (Suc i)) (d # ds)"
        by simp_all
      then show ?thesis by blast
    qed
  qed
qed

lemma deleteComplaint_snd:
  "snd (deleteComplaint newObjectId e b ds) = ds \<or>
   (\<exists>oid. snd (deleteComplaint newObjectId e b ds) = deleteOne (has_id oid) ds)"
  by (auto simp: deleteComplaint_def split: sum.splits)

lemma store_coll: "coll (snd (store cfg e d st)) = coll st \<or> (\<exists>x. coll (snd (store cfg e d st)) = coll st @ [x])"
  by (simp add: store_def Let_def)

lemma handler_coll:
  "coll (snd (handler cfg isEmail e ev st)) = coll st \<or>
   (\<exists>x. coll (snd (handler cfg isEmail e ev st)) = coll st @ [x])"
proof (cases "intake cfg isEmail e (body ev)")
  case (Inl out)
  then show ?thesis by (simp add: handler_def Let_def case_prod_beta)
next
  case (Inr d)
  let ?st1 = "st\<lparr>rateMap := snd (isRateLimited (client_ip ev) (now_rate e) (rateMap st))\<rparr>"
  from store_coll [of cfg e d ?st1] Inr show ?thesis
    by (auto simp: handler_def Let_def case_prod_beta)
qed

text \<open>
  C8. A status update changes nothing but the status field of one record: the
  collection keeps its length, every field other than \<open>status\<close> of every record reads
  as before (\<open>complaintId\<close>, \<open>department\<close>, \<open>program\<close>, \<open>title\<close>, \<open>details\<close>,
  \<open>createdAt\<close> and \<open>reporter\<close> among them), and the collection is either unchanged or
  differs in one record whose \<open>status\<close> was set. This holds for both update handlers.
  No other handler rewrites a stored record either: a submission leaves the collection
  as it is or adds one record at its end, a deletion leaves it as it is or removes one
  record.
\<close>

theorem update_changes_status_only:
  "(let ds' = snd (updateComplaint newObjectId e b ds)
    in length ds' = length ds \<and>
       (\<forall>i k. i < length ds \<and> k \<noteq> js ''status'' \<longrightarrow> map_of (ds' ! i) k = map_of (ds ! i) k) \<and>
       (ds' = ds \<or>
        (\<exists>i v. i < length ds \<and> ds' = ds[i := AList.update (js ''status'') v (ds ! i)]))) \<and>
   (let ds' = snd (updateComplaint_status newObjectId e b ds)
    in length ds' = length ds \<and>
       (\<forall>i k. i < length ds \<and> k \<noteq> js ''status'' \<longrightarrow> map_of (ds' ! i) k = map_of (ds ! i) k) \<and>
       (ds' = ds \<or>
        (\<exists>i v. i < length ds \<and> ds' = ds[i := AList.update (js ''status'') v (ds ! i)]))) \<and>
   (coll (snd (handler cfg isEmail se ev st)) = coll st \<or>
    (\<exists>x. coll (snd (handler cfg isEmail se ev st)) = coll st @ [x])) \<and>
   (snd (deleteComplaint newObjectId e b ds) = ds \<or>
    (\<exists>i<length ds. snd (deleteComplaint newObjectId e b ds) = take i ds @ drop (Suc i) ds))"
proof -
  have "snd (deleteComplaint newObjectId e b ds) = ds \<or>
      (\<exists>i<length ds. snd (deleteComplaint newObjectId e b ds) = take i ds @ drop (Suc i) ds)"
    using deleteComplaint_snd [of newObjectId e b ds] deleteOne_shape [of _ ds] by metis
  then show ?thesis
    unfolding Let_def
    using update_shape [OF updateComplaint_snd [of newObjectId e b ds]]
      update_shape [OF updateComplaint_status_snd [of newObjectId e b ds]]
      handler_coll [of cfg isEmail se ev st]
    by blast
qed

text \<open>The example complaint keeps its identifier and its title when it is approved.\<close>

theorem update_changes_status_only_witness:
  "map_of (snd (updateComplaint hexObjectId db_up (update_request ''approve'')
       example_complaints) ! 0) (js ''complaintId'')
     = Some (JStr (js ''COMP-loyw3v28-3F2A9C1E'')) \<and>
   map_of (snd (updateComplaint hexObjectId db_up (update_request ''approve'')
       example_complaints) ! 0) (js ''title'')
     = Some (JStr (js ''Broken AC''))"
proof -
  have "0 < length example_complaints" by (simp add: example_complaints_def)
  moreover have "js ''complaintId'' \<noteq> js ''status''" and "js ''title'' \<noteq> js ''status''"
    by simp_all
  ultimately have
    "map_of (snd (updateComplaint hexObjectId db_up (update_request ''approve'')
        example_complaints) ! 0) (js ''complaintId'')
      = map_of (example_complaints ! 0) (js ''complaintId'')"
    "map_of (snd (updateComplaint hexObjectId db_up (update_request ''approve'')
        example_complaints) ! 0) (js ''title'')
      = map_of (example_complaints ! 0) (js ''title'')"
    using update_changes_status_only [of hexObjectId db_up "update_request ''approve''"
        example_complaints example_config contains_at "example_env 0" "example_event NoBody"
        empty_state]
    unfolding Let_def by blast+
  then show ?thesis by (simp add: example_complaints_def complaintDoc_def)
qed

subsection \<open>getComplaintById\<close>

lemma safe_fields_shape:
  "\<exists>kvs. safe_fields d = JObj kvs \<and>
     fst ` set kvs \<subseteq> {js ''complaintId'', js ''title'', js ''status'', js ''createdAt''} \<and>
     (\<forall>k v. (k, v) \<in> set kvs \<and> k \<noteq> js ''status'' \<longrightarrow> map_of d k = Some v) \<and>
     (map_of d (js ''status'') = None \<longrightarrow>
        map_of kvs (js ''status'') = Some (JStr (js ''pending'')))"
  by (auto simp: safe_fields_def defined_members_def Let_def split: option.splits)

text \<open>
  C10. When the fetch by identifier answers 200, its body is an object built from one
  stored complaint: its keys are among \<open>complaintId\<close>, \<open>title\<close>, \<open>status\<close> and
  \<open>createdAt\<close> (so never \<open>details\<close>, \<open>department\<close>, \<open>program\<close> or \<open>reporter\<close>), the
  values other than the status are the complaint's own, and the status is "pending"
  when the complaint has no status field.
\<close>

theorem fetch_returns_safe_fields:
  assumes "statusCode (getComplaintById matches e b ds) = 200"
  shows "\<exists>d kvs. d \<in> set ds \<and>
           resp_body (getComplaintById matches e b ds) = Json (JObj kvs) \<and>
           fst ` set kvs \<subseteq> {js ''complaintId'', js ''title'', js ''status'', js ''createdAt''} \<and>
           (\<forall>k v. (k, v) \<in> set kvs \<and> k \<noteq> js ''status'' \<longrightarrow> map_of d k = Some v) \<and>
           (map_of d (js ''status'') = None \<longrightarrow>
              map_of kvs (js ''status'') = Some (JStr (js ''pending'')))"
proof -
  from assms obtain cid d where f: "findOne (matches cid) ds = Some d"
    and r: "getComplaintById matches e b ds
        = \<lparr>statusCode = 200, resp_headers = [], resp_body = Json (safe_fields d)\<rparr>"
    by (auto simp: getComplaintById_def failure_def split: sum.splits if_splits option.splits)
  from f have "d \<in> set ds" unfolding findOne_def by (auto simp: find_Some_iff)
  with safe_fields_shape [of d] r show ?thesis by auto
qed

text \<open>The example complaint, fetched by its identifier.\<close>

theorem fetch_returns_safe_fields_witness:
  "\<exists>d kvs. d \<in> set example_complaints \<and>
     resp_body (getComplaintById field_equals db_up
        (Decoded (JObj [(js ''complaintId'', JStr (js ''COMP-loyw3v28-3F2A9C1E''))]))
        example_complaints) = Json (JObj kvs) \<and>
     fst ` set kvs \<subseteq> {js ''complaintId'', js ''title'', js ''status'', js ''createdAt''}"
proof -
  let ?b = "Decoded (JObj [(js ''complaintId'', JStr (js ''COMP-loyw3v28-3F2A9C1E''))])"
  have "findOne (field_equals (JStr (js ''COMP-loyw3v28-3F2A9C1E''))) example_complaints
      = Some (hd example_complaints)"
    by (simp add: findOne_def field_equals_def example_complaints_def complaintDoc_def)
  then have "statusCode (getComplaintById field_equals db_up ?b example_complaints) = 200"
    by (simp add: getComplaintById_def parse_body_def db_up_def)
  from fetch_returns_safe_fields [OF this] show ?thesis by blast
qed

text \<open>A call that finds a complaint is answered 200 with these fields.\<close>

lemma fetch_found:
  assumes "parse_body b = Inr parsed" and "get_prop parsed (js ''complaintId'') = Inr cid"
    and "truthy cid" and "db_connect_ok e" and "db_query_ok e"
    and "findOne (matches cid) ds = Some d"
  shows "getComplaintById matches e b ds
           = \<lparr>statusCode = 200, resp_headers = [], resp_body = Json (safe_fields d)\<rparr>"
  using assms by (simp add: getComplaintById_def)

lemma safe_fields_example:
  "safe_fields (hd example_complaints) =
     JObj [(js ''complaintId'', JStr (js ''COMP-loyw3v28-3F2A9C1E'')),
           (js ''title'', JStr (js ''Broken AC'')),
           (js ''status'', JStr (js ''pending'')),
           (js ''createdAt'', JDate 1700000000000)]"
  by (simp add: safe_fields_def example_complaints_def complaintDoc_def defined_members_def)

lemma safe_fields_no_status:
  "safe_fields [(js ''complaintId'', JStr (js ''C-1'')), (js ''details'', JStr (js ''secret''))] =
     JObj [(js ''complaintId'', JStr (js ''C-1'')), (js ''status'', JStr (js ''pending''))]"
  by (simp add: safe_fields_def defined_members_def)

end
